theory Spec2Isabelle
  imports Main "HOL-Library.Word"
begin

section \<open>A shallow embedding of the go-selenium web driver client\<close>

text \<open>
  The development follows \<^verbatim>\<open>web_driver.go\<close>: the value constructors (\<^verbatim>\<open>Timeout\<close>,
  \<^verbatim>\<open>By\<close>), the driver constructor, the two request helpers and the six navigation
  commands. Go strings are byte sequences and are modelled as \<^typ>\<open>string\<close> (a list of
  8-bit characters); Go's \<^verbatim>\<open>int\<close> and \<^verbatim>\<open>uint\<close> are taken at their 64-bit width.
\<close>

subsection \<open>The Go library functions the driver calls\<close>

text \<open>\<^verbatim>\<open>strings.HasPrefix\<close>, \<^verbatim>\<open>strings.HasSuffix\<close> and \<^verbatim>\<open>strings.TrimSuffix\<close>.\<close>

definition HasPrefix :: "string \<Rightarrow> string \<Rightarrow> bool" where
  "HasPrefix s pre = (length s \<ge> length pre \<and> take (length pre) s = pre)"

definition HasSuffix :: "string \<Rightarrow> string \<Rightarrow> bool" where
  "HasSuffix s suf = (length s \<ge> length suf \<and> drop (length s - length suf) s = suf)"

definition TrimSuffix :: "string \<Rightarrow> string \<Rightarrow> string" where
  "TrimSuffix s suf = (if HasSuffix s suf then take (length s - length suf) s else s)"

text \<open>
  \<^verbatim>\<open>utf8.EncodeRune\<close>: the UTF-8 bytes of a code point. A surrogate or a value above
  \<^verbatim>\<open>U+10FFFF\<close> is written as the replacement character \<^verbatim>\<open>U+FFFD\<close>.
\<close>

definition RuneError :: nat where
  "RuneError = 0xFFFD"

definition utf8_EncodeRune :: "nat \<Rightarrow> string" where
  "utf8_EncodeRune r0 =
     (if r0 \<le> 0x7F then [char_of r0]
      else if r0 \<le> 0x7FF then [char_of (0xC0 + r0 div 64), char_of (0x80 + r0 mod 64)]
      else
        let r = (if r0 > 0x10FFFF \<or> (0xD800 \<le> r0 \<and> r0 \<le> 0xDFFF) then RuneError else r0)
        in if r \<le> 0xFFFF
           then [char_of (0xE0 + r div 4096), char_of (0x80 + (r div 64) mod 64),
                 char_of (0x80 + r mod 64)]
           else [char_of (0xF0 + r div 262144), char_of (0x80 + (r div 4096) mod 64),
                 char_of (0x80 + (r div 64) mod 64), char_of (0x80 + r mod 64)])"

text \<open>
  The conversion \<^verbatim>\<open>string(index)\<close> of an unsigned integer: the UTF-8 text of the code
  point with that number, not its decimal digits.
\<close>

definition string_of_uint :: "64 word \<Rightarrow> string" where
  "string_of_uint n = utf8_EncodeRune (unat n)"

text \<open>
  \<^verbatim>\<open>utf8.DecodeRune\<close>: the code point at the head of a byte string and the number of
  bytes it takes. A byte that starts no well-formed UTF-8 sequence is read as
  \<^verbatim>\<open>U+FFFD\<close> of width 1.
\<close>

definition byte :: "char \<Rightarrow> nat" where
  "byte c = of_char c"

definition between :: "nat \<Rightarrow> nat \<Rightarrow> char \<Rightarrow> bool" where
  "between lo hi c = (lo \<le> byte c \<and> byte c \<le> hi)"

fun utf8_DecodeRune :: "string \<Rightarrow> nat \<times> nat" where
  "utf8_DecodeRune [] = (RuneError, 0)"
| "utf8_DecodeRune (c0 # cs) =
     (let b0 = byte c0 in
      if b0 < 0x80 then (b0, 1)
      else if 0xC2 \<le> b0 \<and> b0 \<le> 0xDF then
        (case cs of
           c1 # _ \<Rightarrow>
             if between 0x80 0xBF c1 then ((b0 mod 32) * 64 + byte c1 mod 64, 2)
             else (RuneError, 1)
         | _ \<Rightarrow> (RuneError, 1))
      else if 0xE0 \<le> b0 \<and> b0 \<le> 0xEF then
        (case cs of
           c1 # c2 # _ \<Rightarrow>
             if between (if b0 = 0xE0 then 0xA0 else 0x80) (if b0 = 0xED then 0x9F else 0xBF) c1
                \<and> between 0x80 0xBF c2
             then ((b0 mod 16) * 4096 + (byte c1 mod 64) * 64 + byte c2 mod 64, 3)
             else (RuneError, 1)
         | _ \<Rightarrow> (RuneError, 1))
      else if 0xF0 \<le> b0 \<and> b0 \<le> 0xF4 then
        (case cs of
           c1 # c2 # c3 # _ \<Rightarrow>
             if between (if b0 = 0xF0 then 0x90 else 0x80) (if b0 = 0xF4 then 0x8F else 0xBF) c1
                \<and> between 0x80 0xBF c2 \<and> between 0x80 0xBF c3
             then ((b0 mod 8) * 262144 + (byte c1 mod 64) * 4096 + (byte c2 mod 64) * 64
                     + byte c3 mod 64, 4)
             else (RuneError, 1)
         | _ \<Rightarrow> (RuneError, 1))
      else (RuneError, 1))"

subsection \<open>Capabilities\<close>

text \<open>
  Modelled from the spec: the type \<^verbatim>\<open>Capabilities\<close> is declared outside
  \<^verbatim>\<open>web_driver.go\<close>. The constructor reads only \<^verbatim>\<open>capabilities.Browser().BrowserName()\<close>,
  so a capabilities descriptor is a record holding its browser, and a browser a record
  holding its name.
\<close>

record Browser =
  BrowserName :: string

record Capabilities =
  Browser :: Browser

subsection \<open>Errors\<close>

text \<open>
  Modelled from the spec: the error constructors \<^verbatim>\<open>newInvalidArgumentError\<close>,
  \<^verbatim>\<open>newSessionIDError\<close>, \<^verbatim>\<open>newInvalidURLError\<close>, \<^verbatim>\<open>newCommunicationError\<close>,
  \<^verbatim>\<open>newMarshallingError\<close> and \<^verbatim>\<open>newUnmarshallingError\<close> are called by
  \<^verbatim>\<open>web_driver.go\<close> but declared elsewhere. Following the taxonomy of section 4.4 of
  the specification, each error kind is a constructor that keeps the arguments of the
  call, in the order of the call; the value whose encoding failed is a parameter map or
  a capabilities descriptor. \<^verbatim>\<open>errors.New\<close> and the two failures of
  \<^verbatim>\<open>encoding/json\<close> are the remaining error values the file can produce; an error
  returned by the transport is any value of the type.
\<close>

datatype marshalled = ParamsValue "(string \<times> string) list" | CapabilitiesValue Capabilities

datatype error =
    ErrorString string
  | SyntaxError
  | UnmarshalTypeError string
  | InvalidArgument string string string
  | MissingSession string
  | InvalidURL error string
  | Communication error string string string
  | Marshalling error string marshalled
  | Unmarshalling error string string

definition errors_New :: "string \<Rightarrow> error" where
  "errors_New message = ErrorString message"

definition newInvalidArgumentError :: "string \<Rightarrow> string \<Rightarrow> string \<Rightarrow> error" where
  "newInvalidArgumentError message argument val = InvalidArgument message argument val"

definition newSessionIDError :: "string \<Rightarrow> error" where
  "newSessionIDError callingMethod = MissingSession callingMethod"

definition newInvalidURLError :: "error \<Rightarrow> string \<Rightarrow> error" where
  "newInvalidURLError err u = InvalidURL err u"

definition newCommunicationError :: "error \<Rightarrow> string \<Rightarrow> string \<Rightarrow> string \<Rightarrow> error" where
  "newCommunicationError err callingMethod u resp = Communication err callingMethod u resp"

definition newMarshallingError :: "error \<Rightarrow> string \<Rightarrow> marshalled \<Rightarrow> error" where
  "newMarshallingError err callingMethod v = Marshalling err callingMethod v"

definition newUnmarshallingError :: "error \<Rightarrow> string \<Rightarrow> string \<Rightarrow> error" where
  "newUnmarshallingError err callingMethod resp = Unmarshalling err callingMethod resp"

subsection \<open>The JSON decoder of \<^verbatim>\<open>encoding/json\<close>\<close>

text \<open>
  \<^verbatim>\<open>json.Unmarshal\<close> first checks that its input is one well-formed JSON value and
  then stores that value into the \<^verbatim>\<open>stateResponse\<close> or \<^verbatim>\<open>valueResponse\<close> it was given.
  The check is the library's scanner (\<^verbatim>\<open>scanner.go\<close>): a state machine that reads one
  byte at a time and keeps a stack of the open arrays and objects. The machine below has
  the scanner's states and transitions; in addition each state carries the text read so
  far and each stack entry the members read so far, so that the machine ends with the
  value it has read.
\<close>

datatype json =
    JNull
  | JBool bool
  | JNumber string
  | JString string
  | JArray "json list"
  | JObject "(string \<times> json) list"

text \<open>
  A stack entry is an open array with its elements, or an open object with its members
  and the key whose value is being read (the scanner's \<^verbatim>\<open>parseArrayValue\<close>,
  \<^verbatim>\<open>parseObjectKey\<close> and \<^verbatim>\<open>parseObjectValue\<close>).
\<close>

datatype frame =
    ArrayFrame "json list"
  | ObjectFrame "(string \<times> json) list" "string option"

datatype scan =
    BeginValue
  | BeginValueOrEmpty
  | BeginStringOrEmpty
  | BeginString
  | EndKey
  | EndValue
  | EndTop json
  | InString string
  | InStringEsc string
  | InStringEscU string nat
  | Neg string
  | Num1 string
  | Num0 string
  | Dot string
  | Dot0 string
  | NumE string
  | ESign string
  | E0 string
  | InLiteral string json
  | ScanError

type_synonym scanner = "scan \<times> frame list"

definition isSpace :: "char \<Rightarrow> bool" where
  "isSpace c = (c = CHR '' '' \<or> c = CHR 0x09 \<or> c = CHR 0x0D \<or> c = CHR 0x0A)"

definition isDigit :: "char \<Rightarrow> bool" where
  "isDigit c = between 0x30 0x39 c"

definition isHex :: "char \<Rightarrow> bool" where
  "isHex c = (between 0x30 0x39 c \<or> between 0x61 0x66 c \<or> between 0x41 0x46 c)"

definition maxNestingDepth :: nat where
  "maxNestingDepth = 10000"

definition hexval :: "char \<Rightarrow> nat" where
  "hexval c =
     (if between 0x30 0x39 c then byte c - 0x30
      else if between 0x61 0x66 c then byte c - 0x61 + 10
      else byte c - 0x41 + 10)"

text \<open>
  \<^verbatim>\<open>getu4\<close> of \<^verbatim>\<open>decode.go\<close>: the number written by a \<^verbatim>\<open>\uXXXX\<close> escape at the head
  of the text, if there is one.
\<close>

fun getu4 :: "string \<Rightarrow> nat option" where
  "getu4 (b # u # h1 # h2 # h3 # h4 # rest) =
     (if b = CHR 0x5C \<and> u = CHR ''u'' \<and> isHex h1 \<and> isHex h2 \<and> isHex h3 \<and> isHex h4
      then Some (hexval h1 * 4096 + hexval h2 * 256 + hexval h3 * 16 + hexval h4)
      else None)"
| "getu4 _ = None"

definition unescape :: "char \<Rightarrow> char" where
  "unescape e =
     (if e = CHR ''b'' then CHR 0x08
      else if e = CHR ''f'' then CHR 0x0C
      else if e = CHR ''n'' then CHR 0x0A
      else if e = CHR ''r'' then CHR 0x0D
      else if e = CHR ''t'' then CHR 0x09
      else e)"

text \<open>
  \<^verbatim>\<open>unquoteBytes\<close> of \<^verbatim>\<open>decode.go\<close>, on the text between the quotes of a string the
  scanner has accepted: escapes are replaced by the bytes they stand for, a pair of
  UTF-16 surrogate escapes by the one code point, a lone surrogate and every byte that
  is not well-formed UTF-8 by \<^verbatim>\<open>U+FFFD\<close>. The scanner has already refused a backslash
  with nothing or with a wrong letter after it; on such text the result ends there.
\<close>

function unquote :: "string \<Rightarrow> string" where
  "unquote [] = []"
| "unquote (c # cs) =
     (if c = CHR 0x5C then
        (case cs of
           [] \<Rightarrow> []
         | e # rest \<Rightarrow>
             if e = CHR ''u'' then
               (case getu4 (c # cs) of
                  None \<Rightarrow> []
                | Some rr \<Rightarrow>
                    if 0xD800 \<le> rr \<and> rr < 0xE000 then
                      (case getu4 (drop 4 rest) of
                         None \<Rightarrow> utf8_EncodeRune RuneError @ unquote (drop 4 rest)
                       | Some rr1 \<Rightarrow>
                           if rr < 0xDC00 \<and> 0xDC00 \<le> rr1 \<and> rr1 < 0xE000
                           then utf8_EncodeRune ((rr - 0xD800) * 1024 + (rr1 - 0xDC00) + 0x10000)
                                  @ unquote (drop 10 rest)
                           else utf8_EncodeRune RuneError @ unquote (drop 4 rest))
                    else utf8_EncodeRune rr @ unquote (drop 4 rest))
             else unescape e # unquote rest)
      else if byte c < 0x80 then c # unquote cs
      else utf8_EncodeRune (fst (utf8_DecodeRune (c # cs)))
             @ unquote (drop (snd (utf8_DecodeRune (c # cs)) - 1) cs))"
  by pat_completeness auto
termination
  by (relation "measure length") auto

text \<open>
  The value just read is stored where it belongs: at the top level it is the result; in
  an array it is the next element; in an object it is the key, or the value of the key
  read before it.
\<close>

fun storeValue :: "json \<Rightarrow> frame list \<Rightarrow> scanner" where
  "storeValue v [] = (EndTop v, [])"
| "storeValue v (ArrayFrame vs # st) = (EndValue, ArrayFrame (vs @ [v]) # st)"
| "storeValue v (ObjectFrame kvs (Some k) # st) =
     (EndValue, ObjectFrame (kvs @ [(k, v)]) None # st)"
| "storeValue (JString k) (ObjectFrame kvs None # st) = (EndKey, ObjectFrame kvs (Some k) # st)"
| "storeValue v (ObjectFrame kvs None # st) = (ScanError, ObjectFrame kvs None # st)"

definition stateEndTop :: "json \<Rightarrow> frame list \<Rightarrow> char \<Rightarrow> scanner" where
  "stateEndTop v st c = (if isSpace c then (EndTop v, st) else (ScanError, st))"

definition stateEndKey :: "frame list \<Rightarrow> char \<Rightarrow> scanner" where
  "stateEndKey st c =
     (if isSpace c then (EndKey, st)
      else if c = CHR '':'' then (BeginValue, st)
      else (ScanError, st))"

fun stateEndValue :: "frame list \<Rightarrow> char \<Rightarrow> scanner" where
  "stateEndValue [] c = (ScanError, [])"
| "stateEndValue (ArrayFrame vs # st) c =
     (if isSpace c then (EndValue, ArrayFrame vs # st)
      else if c = CHR '','' then (BeginValue, ArrayFrame vs # st)
      else if c = CHR '']'' then storeValue (JArray vs) st
      else (ScanError, ArrayFrame vs # st))"
| "stateEndValue (ObjectFrame kvs k # st) c =
     (if isSpace c then (EndValue, ObjectFrame kvs k # st)
      else if c = CHR '','' then (BeginString, ObjectFrame kvs k # st)
      else if c = CHR ''}'' then storeValue (JObject kvs) st
      else (ScanError, ObjectFrame kvs k # st))"

text \<open>
  The byte that ends a number is not part of it: the scanner hands it to the state that
  follows the value.
\<close>

fun afterValue :: "scanner \<Rightarrow> char \<Rightarrow> scanner" where
  "afterValue (EndTop v, st) c = stateEndTop v st c"
| "afterValue (EndValue, st) c = stateEndValue st c"
| "afterValue (EndKey, st) c = stateEndKey st c"
| "afterValue (m, st) c = (ScanError, st)"

definition stateBeginString :: "frame list \<Rightarrow> char \<Rightarrow> scanner" where
  "stateBeginString st c =
     (if isSpace c then (BeginString, st)
      else if c = CHR 0x22 then (InString [], st)
      else (ScanError, st))"

definition stateBeginValue :: "frame list \<Rightarrow> char \<Rightarrow> scanner" where
  "stateBeginValue st c =
     (if isSpace c then (BeginValue, st)
      else if c = CHR ''{'' then
        (if length st < maxNestingDepth then (BeginStringOrEmpty, ObjectFrame [] None # st)
         else (ScanError, st))
      else if c = CHR ''['' then
        (if length st < maxNestingDepth then (BeginValueOrEmpty, ArrayFrame [] # st)
         else (ScanError, st))
      else if c = CHR 0x22 then (InString [], st)
      else if c = CHR ''-'' then (Neg [c], st)
      else if c = CHR ''0'' then (Num0 [c], st)
      else if c = CHR ''t'' then (InLiteral ''rue'' (JBool True), st)
      else if c = CHR ''f'' then (InLiteral ''alse'' (JBool False), st)
      else if c = CHR ''n'' then (InLiteral ''ull'' JNull, st)
      else if between 0x31 0x39 c then (Num1 [c], st)
      else (ScanError, st))"

definition stateBeginValueOrEmpty :: "frame list \<Rightarrow> char \<Rightarrow> scanner" where
  "stateBeginValueOrEmpty st c =
     (if isSpace c then (BeginValueOrEmpty, st)
      else if c = CHR '']'' then stateEndValue st c
      else stateBeginValue st c)"

definition stateBeginStringOrEmpty :: "frame list \<Rightarrow> char \<Rightarrow> scanner" where
  "stateBeginStringOrEmpty st c =
     (if isSpace c then (BeginStringOrEmpty, st)
      else if c = CHR ''}'' then stateEndValue st c
      else stateBeginString st c)"

definition stateInString :: "string \<Rightarrow> frame list \<Rightarrow> char \<Rightarrow> scanner" where
  "stateInString raw st c =
     (if c = CHR 0x22 then storeValue (JString (unquote raw)) st
      else if c = CHR 0x5C then (InStringEsc (raw @ [c]), st)
      else if byte c < 0x20 then (ScanError, st)
      else (InString (raw @ [c]), st))"

definition stateInStringEsc :: "string \<Rightarrow> frame list \<Rightarrow> char \<Rightarrow> scanner" where
  "stateInStringEsc raw st c =
     (if c = CHR ''b'' \<or> c = CHR ''f'' \<or> c = CHR ''n'' \<or> c = CHR ''r'' \<or> c = CHR ''t''
         \<or> c = CHR 0x5C \<or> c = CHR ''/'' \<or> c = CHR 0x22
      then (InString (raw @ [c]), st)
      else if c = CHR ''u'' then (InStringEscU (raw @ [c]) 0, st)
      else (ScanError, st))"

definition stateInStringEscU :: "string \<Rightarrow> nat \<Rightarrow> frame list \<Rightarrow> char \<Rightarrow> scanner" where
  "stateInStringEscU raw n st c =
     (if isHex c then
        (if n \<ge> 3 then (InString (raw @ [c]), st) else (InStringEscU (raw @ [c]) (Suc n), st))
      else (ScanError, st))"

definition stateNeg :: "string \<Rightarrow> frame list \<Rightarrow> char \<Rightarrow> scanner" where
  "stateNeg num st c =
     (if c = CHR ''0'' then (Num0 (num @ [c]), st)
      else if between 0x31 0x39 c then (Num1 (num @ [c]), st)
      else (ScanError, st))"

definition state0 :: "string \<Rightarrow> frame list \<Rightarrow> char \<Rightarrow> scanner" where
  "state0 num st c =
     (if c = CHR ''.'' then (Dot (num @ [c]), st)
      else if c = CHR ''e'' \<or> c = CHR ''E'' then (NumE (num @ [c]), st)
      else afterValue (storeValue (JNumber num) st) c)"

definition state1 :: "string \<Rightarrow> frame list \<Rightarrow> char \<Rightarrow> scanner" where
  "state1 num st c = (if isDigit c then (Num1 (num @ [c]), st) else state0 num st c)"

definition stateDot :: "string \<Rightarrow> frame list \<Rightarrow> char \<Rightarrow> scanner" where
  "stateDot num st c = (if isDigit c then (Dot0 (num @ [c]), st) else (ScanError, st))"

definition stateDot0 :: "string \<Rightarrow> frame list \<Rightarrow> char \<Rightarrow> scanner" where
  "stateDot0 num st c =
     (if isDigit c then (Dot0 (num @ [c]), st)
      else if c = CHR ''e'' \<or> c = CHR ''E'' then (NumE (num @ [c]), st)
      else afterValue (storeValue (JNumber num) st) c)"

definition stateESign :: "string \<Rightarrow> frame list \<Rightarrow> char \<Rightarrow> scanner" where
  "stateESign num st c = (if isDigit c then (E0 (num @ [c]), st) else (ScanError, st))"

definition stateE :: "string \<Rightarrow> frame list \<Rightarrow> char \<Rightarrow> scanner" where
  "stateE num st c =
     (if c = CHR ''+'' \<or> c = CHR ''-'' then (ESign (num @ [c]), st) else stateESign num st c)"

definition stateE0 :: "string \<Rightarrow> frame list \<Rightarrow> char \<Rightarrow> scanner" where
  "stateE0 num st c =
     (if isDigit c then (E0 (num @ [c]), st)
      else afterValue (storeValue (JNumber num) st) c)"

text \<open>
  The states \<^verbatim>\<open>stateT\<close>, \<^verbatim>\<open>stateTr\<close>, ..., \<^verbatim>\<open>stateNul\<close> of the scanner, as one state
  that holds the letters still to come and the value they spell.
\<close>

fun stateLiteral :: "string \<Rightarrow> json \<Rightarrow> frame list \<Rightarrow> char \<Rightarrow> scanner" where
  "stateLiteral [] v st c = (ScanError, st)"
| "stateLiteral [x] v st c = (if c = x then storeValue v st else (ScanError, st))"
| "stateLiteral (x # xs) v st c = (if c = x then (InLiteral xs v, st) else (ScanError, st))"

fun step :: "scanner \<Rightarrow> char \<Rightarrow> scanner" where
  "step (BeginValue, st) c = stateBeginValue st c"
| "step (BeginValueOrEmpty, st) c = stateBeginValueOrEmpty st c"
| "step (BeginStringOrEmpty, st) c = stateBeginStringOrEmpty st c"
| "step (BeginString, st) c = stateBeginString st c"
| "step (EndKey, st) c = stateEndKey st c"
| "step (EndValue, st) c = stateEndValue st c"
| "step (EndTop v, st) c = stateEndTop v st c"
| "step (InString raw, st) c = stateInString raw st c"
| "step (InStringEsc raw, st) c = stateInStringEsc raw st c"
| "step (InStringEscU raw n, st) c = stateInStringEscU raw n st c"
| "step (Neg num, st) c = stateNeg num st c"
| "step (Num1 num, st) c = state1 num st c"
| "step (Num0 num, st) c = state0 num st c"
| "step (Dot num, st) c = stateDot num st c"
| "step (Dot0 num, st) c = stateDot0 num st c"
| "step (NumE num, st) c = stateE num st c"
| "step (ESign num, st) c = stateESign num st c"
| "step (E0 num, st) c = stateE0 num st c"
| "step (InLiteral rest v, st) c = stateLiteral rest v st c"
| "step (ScanError, st) c = (ScanError, st)"

text \<open>
  The scanner's \<^verbatim>\<open>eof\<close>: the input is complete if the top-level value has ended, or
  ends once a space is read after it (a number at the very end).
\<close>

fun endTop :: "scanner \<Rightarrow> json option" where
  "endTop (EndTop v, st) = Some v"
| "endTop (m, st) = None"

definition eof :: "scanner \<Rightarrow> json option" where
  "eof s = (case endTop s of Some v \<Rightarrow> Some v | None \<Rightarrow> endTop (step s (CHR '' '')))"

definition checkValid :: "string \<Rightarrow> json option" where
  "checkValid data = eof (foldl step (BeginValue, []) data)"

text \<open>
  A key of the input names a field of the struct if it is the field's JSON name
  (\<^verbatim>\<open>state\<close>, \<^verbatim>\<open>value\<close>) exactly or up to the case of its letters. The library
  compares under Unicode case folding, in which the letter s also folds with
  \<^verbatim>\<open>U+017F\<close> (bytes C5 BF) and the letter k with \<^verbatim>\<open>U+212A\<close> (bytes E2 84 AA).
\<close>

definition foldsTo :: "char \<Rightarrow> char \<Rightarrow> bool" where
  "foldsTo f k = (k = f \<or> (between 0x61 0x7A f \<and> byte k + 0x20 = byte f))"

fun equalFold :: "string \<Rightarrow> string \<Rightarrow> bool" where
  "equalFold [] [] = True"
| "equalFold (f # fs) (k # ks) =
     (if foldsTo f k then equalFold fs ks
      else if f = CHR ''s'' \<and> k = CHR 0xC5 then
        (case ks of k2 # ks' \<Rightarrow> k2 = CHR 0xBF \<and> equalFold fs ks' | [] \<Rightarrow> False)
      else if f = CHR ''k'' \<and> k = CHR 0xE2 then
        (case ks of
           k2 # k3 # ks' \<Rightarrow> k2 = CHR 0x84 \<and> k3 = CHR 0xAA \<and> equalFold fs ks'
         | _ \<Rightarrow> False)
      else False)"
| "equalFold fs ks = False"

text \<open>
  Storing a JSON value into a field of type \<^verbatim>\<open>string\<close>: a string replaces the field,
  \<^verbatim>\<open>null\<close> leaves it as it is, anything else leaves it and is an
  \<^verbatim>\<open>UnmarshalTypeError\<close>.
\<close>

fun storeString :: "json \<Rightarrow> string \<Rightarrow> string \<times> error option" where
  "storeString (JString s) old = (s, None)"
| "storeString JNull old = (old, None)"
| "storeString (JBool b) old = (old, Some (UnmarshalTypeError ''bool''))"
| "storeString (JNumber n) old = (old, Some (UnmarshalTypeError ''number''))"
| "storeString (JArray vs) old = (old, Some (UnmarshalTypeError ''array''))"
| "storeString (JObject kvs) old = (old, Some (UnmarshalTypeError ''object''))"

text \<open>The decoder keeps the first error it meets and goes on (\<^verbatim>\<open>saveError\<close>).\<close>

definition saveError :: "error option \<Rightarrow> error option \<Rightarrow> error option" where
  "saveError saved err = (case saved of Some e \<Rightarrow> Some e | None \<Rightarrow> err)"

text \<open>
  The structs \<^verbatim>\<open>stateResponse\<close> (field \<^verbatim>\<open>State\<close>, JSON name \<^verbatim>\<open>state\<close>) and
  \<^verbatim>\<open>valueResponse\<close> (fields \<^verbatim>\<open>State\<close> and \<^verbatim>\<open>Value\<close>, JSON names \<^verbatim>\<open>state\<close> and
  \<^verbatim>\<open>value\<close>).
\<close>

datatype stateResponse = StateResponse string

datatype valueResponse = ValueResponse string string

text \<open>
  The members of an object are stored in the order of the input. A key that names no
  field is skipped with its value; a later member overwrites an earlier one.
\<close>

fun object_stateResponse ::
  "(string \<times> json) list \<Rightarrow> stateResponse \<times> error option \<Rightarrow> stateResponse \<times> error option" where
  "object_stateResponse [] acc = acc"
| "object_stateResponse ((k, v) # kvs) (StateResponse st, saved) =
     (if equalFold ''state'' k
      then object_stateResponse kvs
             (StateResponse (fst (storeString v st)), saveError saved (snd (storeString v st)))
      else object_stateResponse kvs (StateResponse st, saved))"

fun object_valueResponse ::
  "(string \<times> json) list \<Rightarrow> valueResponse \<times> error option \<Rightarrow> valueResponse \<times> error option" where
  "object_valueResponse [] acc = acc"
| "object_valueResponse ((k, v) # kvs) (ValueResponse st val, saved) =
     (if equalFold ''state'' k
      then object_valueResponse kvs
             (ValueResponse (fst (storeString v st)) val, saveError saved (snd (storeString v st)))
      else if equalFold ''value'' k
      then object_valueResponse kvs
             (ValueResponse st (fst (storeString v val)), saveError saved (snd (storeString v val)))
      else object_valueResponse kvs (ValueResponse st val, saved))"

text \<open>
  Storing the top-level value into a struct: an object is stored member by member,
  \<^verbatim>\<open>null\<close> changes nothing, every other value is an \<^verbatim>\<open>UnmarshalTypeError\<close>.
\<close>

fun value_stateResponse :: "json \<Rightarrow> stateResponse \<Rightarrow> stateResponse \<times> error option" where
  "value_stateResponse (JObject kvs) r = object_stateResponse kvs (r, None)"
| "value_stateResponse JNull r = (r, None)"
| "value_stateResponse (JBool b) r = (r, Some (UnmarshalTypeError ''bool''))"
| "value_stateResponse (JNumber n) r = (r, Some (UnmarshalTypeError ''number''))"
| "value_stateResponse (JString s) r = (r, Some (UnmarshalTypeError ''string''))"
| "value_stateResponse (JArray vs) r = (r, Some (UnmarshalTypeError ''array''))"

fun value_valueResponse :: "json \<Rightarrow> valueResponse \<Rightarrow> valueResponse \<times> error option" where
  "value_valueResponse (JObject kvs) r = object_valueResponse kvs (r, None)"
| "value_valueResponse JNull r = (r, None)"
| "value_valueResponse (JBool b) r = (r, Some (UnmarshalTypeError ''bool''))"
| "value_valueResponse (JNumber n) r = (r, Some (UnmarshalTypeError ''number''))"
| "value_valueResponse (JString s) r = (r, Some (UnmarshalTypeError ''string''))"
| "value_valueResponse (JArray vs) r = (r, Some (UnmarshalTypeError ''array''))"

text \<open>
  \<^verbatim>\<open>json.Unmarshal(data, &response)\<close> for the two response structs: the struct after
  the call, and the error returned.
\<close>

definition json_Unmarshal_stateResponse ::
  "string \<Rightarrow> stateResponse \<Rightarrow> stateResponse \<times> error option" where
  "json_Unmarshal_stateResponse data response =
     (case checkValid data of
        None \<Rightarrow> (response, Some SyntaxError)
      | Some v \<Rightarrow> value_stateResponse v response)"

definition json_Unmarshal_valueResponse ::
  "string \<Rightarrow> valueResponse \<Rightarrow> valueResponse \<times> error option" where
  "json_Unmarshal_valueResponse data response =
     (case checkValid data of
        None \<Rightarrow> (response, Some SyntaxError)
      | Some v \<Rightarrow> value_valueResponse v response)"

subsection \<open>The JSON encoder of \<^verbatim>\<open>encoding/json\<close>\<close>

text \<open>
  \<^verbatim>\<open>json.Marshal\<close> of a \<^verbatim>\<open>map[string]string\<close>. A string is written between quotes
  (with HTML escaping, as at Go 1.27): the quote and the backslash get a backslash;
  backspace, form feed, newline, carriage return and tab are written \<^verbatim>\<open>\b\<close>, \<^verbatim>\<open>\f\<close>,
  \<^verbatim>\<open>\n\<close>, \<^verbatim>\<open>\r\<close>, \<^verbatim>\<open>\t\<close>; the other control characters and \<^verbatim>\<open><\<close>, \<^verbatim>\<open>>\<close>,
  \<^verbatim>\<open>&\<close> are written \<^verbatim>\<open>\u00XX\<close>; a byte that is not well-formed UTF-8 is
  replaced by the character \<^verbatim>\<open>U+FFFD\<close> itself (bytes EF BF BD; earlier releases wrote
  the six characters \<^verbatim>\<open>\ufffd\<close> instead); \<^verbatim>\<open>U+2028\<close> and \<^verbatim>\<open>U+2029\<close> are written as
  escapes; every other byte is copied.
\<close>

definition hex :: "nat \<Rightarrow> char" where
  "hex n = ''0123456789abcdef'' ! (n mod 16)"

definition htmlSafe :: "char \<Rightarrow> bool" where
  "htmlSafe c =
     (0x20 \<le> byte c \<and> byte c < 0x80 \<and> c \<noteq> CHR 0x22 \<and> c \<noteq> CHR 0x5C
        \<and> c \<noteq> CHR ''<'' \<and> c \<noteq> CHR ''>'' \<and> c \<noteq> CHR ''&'')"

definition escapeByte :: "char \<Rightarrow> string" where
  "escapeByte c =
     (if c = CHR 0x5C \<or> c = CHR 0x22 then [CHR 0x5C, c]
      else if c = CHR 0x08 then [CHR 0x5C, CHR ''b'']
      else if c = CHR 0x0C then [CHR 0x5C, CHR ''f'']
      else if c = CHR 0x0A then [CHR 0x5C, CHR ''n'']
      else if c = CHR 0x0D then [CHR 0x5C, CHR ''r'']
      else if c = CHR 0x09 then [CHR 0x5C, CHR ''t'']
      else [CHR 0x5C, CHR ''u'', CHR ''0'', CHR ''0'', hex (byte c div 16), hex (byte c mod 16)])"

function escapeString :: "string \<Rightarrow> string" where
  "escapeString [] = []"
| "escapeString (c # cs) =
     (if byte c < 0x80 then
        (if htmlSafe c then c # escapeString cs else escapeByte c @ escapeString cs)
      else
        (case utf8_DecodeRune (c # cs) of
           (r, w) \<Rightarrow>
             if r = RuneError \<and> w = 1
             then utf8_EncodeRune RuneError @ escapeString cs
             else if r = 0x2028 \<or> r = 0x2029
             then [CHR 0x5C, CHR ''u'', CHR ''2'', CHR ''0'', CHR ''2'', hex (r mod 16)]
                    @ escapeString (drop (w - 1) cs)
             else take w (c # cs) @ escapeString (drop (w - 1) cs)))"
  by pat_completeness auto
termination
  by (relation "measure length") auto

definition appendString :: "string \<Rightarrow> string" where
  "appendString s = [CHR 0x22] @ escapeString s @ [CHR 0x22]"

text \<open>
  A map is written as an object, its entries in the order of their keys. The map is
  given as the list of its entries in that order. Encoding a map of strings cannot
  fail: the error returned is always \<^verbatim>\<open>nil\<close>.
\<close>

fun mapEntries :: "(string \<times> string) list \<Rightarrow> string" where
  "mapEntries [] = []"
| "mapEntries [(k, v)] = appendString k @ '':'' @ appendString v"
| "mapEntries ((k, v) # kvs) = appendString k @ '':'' @ appendString v @ '','' @ mapEntries kvs"

definition json_Marshal :: "(string \<times> string) list \<Rightarrow> string \<times> error option" where
  "json_Marshal params = (''{'' @ mapEntries params @ ''}'', None)"

subsection \<open>Timeout and By values\<close>

text \<open>
  The struct \<^verbatim>\<open>timeout\<close> with its fields \<^verbatim>\<open>timeoutType\<close> and \<^verbatim>\<open>timeout\<close>, and its two
  methods. A Go \<^verbatim>\<open>int\<close> is a 64-bit word read in two's complement (\<^term>\<open>sint\<close>), a
  \<^verbatim>\<open>uint\<close> a 64-bit word read unsigned.
\<close>

type_synonym go_int = "64 word"

type_synonym go_uint = "64 word"

datatype timeout = Timeout string go_int

fun timeout_Type :: "timeout \<Rightarrow> string" where
  "timeout_Type (Timeout timeoutType ms) = timeoutType"

fun timeout_Timeout :: "timeout \<Rightarrow> go_int" where
  "timeout_Timeout (Timeout timeoutType ms) = ms"

definition SessionScriptTimeout :: "go_int \<Rightarrow> timeout" where
  "SessionScriptTimeout to = Timeout ''script'' to"

definition SessionPageLoadTimeout :: "go_int \<Rightarrow> timeout" where
  "SessionPageLoadTimeout to = Timeout ''page load'' to"

definition SessionImplicitWaitTimeout :: "go_int \<Rightarrow> timeout" where
  "SessionImplicitWaitTimeout to = Timeout ''implicit'' to"

text \<open>
  The struct \<^verbatim>\<open>by\<close> with its fields \<^verbatim>\<open>t\<close> and \<^verbatim>\<open>value\<close>. The field \<^verbatim>\<open>value\<close> has
  type \<^verbatim>\<open>interface{}\<close>; the file stores an unsigned integer or a string in it.
\<close>

datatype interface_value = UintValue go_uint | StringValue string

datatype By = By string interface_value

fun by_Type :: "By \<Rightarrow> string" where
  "by_Type (By t v) = t"

fun by_Value :: "By \<Rightarrow> interface_value" where
  "by_Value (By t v) = v"

definition ByIndex :: "go_uint \<Rightarrow> error + By" where
  "ByIndex index =
     (if index > 65535
      then Inl (newInvalidArgumentError ''Index out of range in ByIndex()'' ''index''
                  (string_of_uint index))
      else Inr (By ''index'' (UintValue index)))"

definition ByCSSSelector :: "string \<Rightarrow> error + By" where
  "ByCSSSelector selector =
     (if selector = ''''
      then Inl (newInvalidArgumentError ''Argument empty in ByCSSSelector()'' ''selector''
                  selector)
      else Inr (By ''css selector'' (StringValue selector)))"

subsection \<open>The driver\<close>

text \<open>
  The interface \<^verbatim>\<open>apiService\<close> has one method, \<^verbatim>\<open>performRequest(url, method, body)\<close>,
  which returns the response bytes and an error. It is the only access to the network,
  so it is a function on the state \<^typ>\<open>'w\<close> of the remote end: it returns the pair
  of the bytes and the optional error, and the next state. A \<^verbatim>\<open>nil\<close> body is
  \<^term>\<open>None\<close>; a \<^verbatim>\<open>bytes.Reader\<close> is the bytes it will deliver.
\<close>

type_synonym 'w apiService =
  "string \<Rightarrow> string \<Rightarrow> string option \<Rightarrow> 'w \<Rightarrow> (string \<times> error option) \<times> 'w"

record 'w seleniumWebDriver =
  seleniumURL :: string
  sessionID :: string
  capabilities :: Capabilities
  apiService :: "'w apiService"

text \<open>
  \<^verbatim>\<open>NewSeleniumWebDriver\<close>. The source installs \<^verbatim>\<open>&seleniumAPIService{}\<close>, whose code is
  not part of the file; it is the first parameter here.
\<close>

definition NewSeleniumWebDriver ::
  "'w apiService \<Rightarrow> string \<Rightarrow> Capabilities \<Rightarrow> error + 'w seleniumWebDriver" where
  "NewSeleniumWebDriver seleniumAPIService serviceURL caps =
     (if serviceURL = '''' then Inl (errors_New ''Provided Selenium URL is invalid'')
      else
        let urlValid = (HasPrefix serviceURL ''http://'' \<or> HasPrefix serviceURL ''https://'')
        in if \<not> urlValid then Inl (errors_New ''Provided Selenium URL is invalid.'')
           else
             let browser = Browser caps;
                 hasBrowserCapability = (BrowserName browser \<noteq> '''')
             in if \<not> hasBrowserCapability
                then Inl (errors_New ''An invalid capabilities object was provided.'')
                else
                  let serviceURL' = (if HasSuffix serviceURL ''/''
                                     then TrimSuffix serviceURL ''/'' else serviceURL)
                  in Inr \<lparr>seleniumURL = serviceURL', sessionID = '''',
                          capabilities = caps, apiService = seleniumAPIService\<rparr>)"

definition DriverURL :: "'w seleniumWebDriver \<Rightarrow> string" where
  "DriverURL s = seleniumURL s"

subsection \<open>Requests and the two request helpers\<close>

text \<open>
  The receiver \<^verbatim>\<open>s *seleniumWebDriver\<close> of a command is a pointer, so a command could
  assign to the driver's fields. A command therefore runs on the pair of the driver and
  the state of the remote end, and returns its result together with the pair after the
  call.
\<close>

record 'w system =
  driver :: "'w seleniumWebDriver"
  remote :: 'w

text \<open>
  The struct \<^verbatim>\<open>request\<close>. Its field \<^verbatim>\<open>method\<close> is called \<open>httpMethod\<close> here,
  \<open>method\<close> being a reserved word of Isabelle.
\<close>

record request =
  url :: string
  httpMethod :: string
  body :: "string option"
  callingMethod :: string

definition stateRequest :: "request \<Rightarrow> 'w system \<Rightarrow> (error + stateResponse) \<times> 'w system" where
  "stateRequest req \<sigma> =
     (let response = StateResponse '''' in
      case apiService (driver \<sigma>) (url req) (httpMethod req) (body req) (remote \<sigma>) of
        ((resp, err), w) \<Rightarrow>
          (case err of
             Some e \<Rightarrow>
               (Inl (newCommunicationError e (callingMethod req) (url req) resp),
                \<sigma>\<lparr>remote := w\<rparr>)
           | None \<Rightarrow>
               (case json_Unmarshal_stateResponse resp response of
                  (response', Some e) \<Rightarrow>
                    (Inl (newUnmarshallingError e (callingMethod req) resp), \<sigma>\<lparr>remote := w\<rparr>)
                | (response', None) \<Rightarrow> (Inr response', \<sigma>\<lparr>remote := w\<rparr>))))"

definition valueRequest :: "request \<Rightarrow> 'w system \<Rightarrow> (error + valueResponse) \<times> 'w system" where
  "valueRequest req \<sigma> =
     (let response = ValueResponse '''' '''' in
      case apiService (driver \<sigma>) (url req) (httpMethod req) (body req) (remote \<sigma>) of
        ((resp, err), w) \<Rightarrow>
          (case err of
             Some e \<Rightarrow>
               (Inl (newCommunicationError e (callingMethod req) (url req) resp),
                \<sigma>\<lparr>remote := w\<rparr>)
           | None \<Rightarrow>
               (case json_Unmarshal_valueResponse resp response of
                  (response', Some e) \<Rightarrow>
                    (Inl (newUnmarshallingError e (callingMethod req) resp), \<sigma>\<lparr>remote := w\<rparr>)
                | (response', None) \<Rightarrow> (Inr response', \<sigma>\<lparr>remote := w\<rparr>))))"

subsection \<open>The navigation commands\<close>

text \<open>
  The response structs: \<^verbatim>\<open>GoResponse{State}\<close>, \<^verbatim>\<open>CurrentURLResponse{State, URL}\<close>,
  \<^verbatim>\<open>BackResponse{State}\<close>, \<^verbatim>\<open>ForwardResponse{State}\<close>, \<^verbatim>\<open>RefreshResponse{State}\<close> and
  \<^verbatim>\<open>TitleResponse{State, Title}\<close>.
\<close>

datatype GoResponse = GoResponse string

datatype CurrentURLResponse = CurrentURLResponse string string

datatype BackResponse = BackResponse string

datatype ForwardResponse = ForwardResponse string

datatype RefreshResponse = RefreshResponse string

datatype TitleResponse = TitleResponse string string

text \<open>
  \<^verbatim>\<open>fmt.Sprintf("%s/session/%s/url", s.seleniumURL, s.sessionID)\<close> and its siblings: the
  two strings are copied into the pattern, whose last part is the command's own.
\<close>

definition Sprintf_session :: "string \<Rightarrow> string \<Rightarrow> string \<Rightarrow> string" where
  "Sprintf_session suffix base sid = base @ ''/session/'' @ sid @ suffix"

definition Go :: "string \<Rightarrow> 'w system \<Rightarrow> (error + GoResponse) \<times> 'w system" where
  "Go goURL \<sigma> =
     (let s = driver \<sigma>;
          requestURL = Sprintf_session ''/url'' (seleniumURL s) (sessionID s)
      in if sessionID s = '''' then (Inl (newSessionIDError ''Go()''), \<sigma>)
         else
           let invalidURL = (goURL = '''');
               validProtocol = (HasPrefix goURL ''https://'' \<or> HasPrefix goURL ''http://'')
           in if invalidURL \<or> \<not> validProtocol
              then (Inl (newInvalidURLError (errors_New ''Invalid URL in Go()'') goURL), \<sigma>)
              else
                let params = [(''url'', goURL)]
                in case json_Marshal params of
                     (marshalledJSON, Some err) \<Rightarrow>
                       (Inl (newMarshallingError err ''Go()'' (ParamsValue params)), \<sigma>)
                   | (marshalledJSON, None) \<Rightarrow>
                       (case stateRequest \<lparr>url = requestURL, httpMethod = ''POST'',
                                            body = Some marshalledJSON,
                                            callingMethod = ''Go''\<rparr> \<sigma> of
                          (Inl err, \<sigma>') \<Rightarrow> (Inl err, \<sigma>')
                        | (Inr (StateResponse st), \<sigma>') \<Rightarrow> (Inr (GoResponse st), \<sigma>')))"

definition CurrentURL :: "'w system \<Rightarrow> (error + CurrentURLResponse) \<times> 'w system" where
  "CurrentURL \<sigma> =
     (let s = driver \<sigma>;
          requestURL = Sprintf_session ''/url'' (seleniumURL s) (sessionID s)
      in if sessionID s = '''' then (Inl (newSessionIDError ''CurrentURL()''), \<sigma>)
         else
           case valueRequest \<lparr>url = requestURL, httpMethod = ''GET'', body = None,
                               callingMethod = ''CurrentURL''\<rparr> \<sigma> of
             (Inl err, \<sigma>') \<Rightarrow> (Inl err, \<sigma>')
           | (Inr (ValueResponse st val), \<sigma>') \<Rightarrow> (Inr (CurrentURLResponse st val), \<sigma>'))"

definition Back :: "'w system \<Rightarrow> (error + BackResponse) \<times> 'w system" where
  "Back \<sigma> =
     (let s = driver \<sigma>;
          requestURL = Sprintf_session ''/back'' (seleniumURL s) (sessionID s)
      in if sessionID s = '''' then (Inl (newSessionIDError ''Back()''), \<sigma>)
         else
           case stateRequest \<lparr>url = requestURL, httpMethod = ''POST'', body = None,
                               callingMethod = ''Back''\<rparr> \<sigma> of
             (Inl err, \<sigma>') \<Rightarrow> (Inl err, \<sigma>')
           | (Inr (StateResponse st), \<sigma>') \<Rightarrow> (Inr (BackResponse st), \<sigma>'))"

definition Forward :: "'w system \<Rightarrow> (error + ForwardResponse) \<times> 'w system" where
  "Forward \<sigma> =
     (let s = driver \<sigma>;
          requestURL = Sprintf_session ''/forward'' (seleniumURL s) (sessionID s)
      in if sessionID s = '''' then (Inl (newSessionIDError ''Forward()''), \<sigma>)
         else
           case stateRequest \<lparr>url = requestURL, httpMethod = ''POST'', body = None,
                               callingMethod = ''Forward''\<rparr> \<sigma> of
             (Inl err, \<sigma>') \<Rightarrow> (Inl err, \<sigma>')
           | (Inr (StateResponse st), \<sigma>') \<Rightarrow> (Inr (ForwardResponse st), \<sigma>'))"

definition Refresh :: "'w system \<Rightarrow> (error + RefreshResponse) \<times> 'w system" where
  "Refresh \<sigma> =
     (let s = driver \<sigma>;
          requestURL = Sprintf_session ''/refresh'' (seleniumURL s) (sessionID s)
      in if sessionID s = '''' then (Inl (newSessionIDError ''Refresh()''), \<sigma>)
         else
           case stateRequest \<lparr>url = requestURL, httpMethod = ''POST'', body = None,
                               callingMethod = ''Refresh''\<rparr> \<sigma> of
             (Inl err, \<sigma>') \<Rightarrow> (Inl err, \<sigma>')
           | (Inr (StateResponse st), \<sigma>') \<Rightarrow> (Inr (RefreshResponse st), \<sigma>'))"

definition Title :: "'w system \<Rightarrow> (error + TitleResponse) \<times> 'w system" where
  "Title \<sigma> =
     (let s = driver \<sigma>;
          requestURL = Sprintf_session ''/title'' (seleniumURL s) (sessionID s)
      in if sessionID s = '''' then (Inl (newSessionIDError ''Title()''), \<sigma>)
         else
           case valueRequest \<lparr>url = requestURL, httpMethod = ''GET'', body = None,
                               callingMethod = ''Title''\<rparr> \<sigma> of
             (Inl err, \<sigma>') \<Rightarrow> (Inl err, \<sigma>')
           | (Inr (ValueResponse st val), \<sigma>') \<Rightarrow> (Inr (TitleResponse st val), \<sigma>'))"

subsection \<open>Creating and deleting a session\<close>

text \<open>
  Modelled from the spec: \<^verbatim>\<open>CreateSession\<close> and \<^verbatim>\<open>DeleteSession\<close> are methods of the
  \<^verbatim>\<open>WebDriver\<close> interface whose bodies are not in \<^verbatim>\<open>web_driver.go\<close>. The
  specification gives their routes (section 6: \<^verbatim>\<open>POST /session\<close> with the capabilities
  descriptor as body and the session id and capabilities as response;
  \<^verbatim>\<open>DELETE /session/{id}\<close>), the template every command follows (section 4.5: check the
  preconditions, build the request, invoke the transport, decode, return the first
  classified error), and their effect (sections 3 and 7: the session id is set by a
  successful \<^verbatim>\<open>CreateSession\<close>, cleared by a successful \<^verbatim>\<open>DeleteSession\<close>, and changed by
  nothing else). How the capabilities are encoded and how the reply to
  \<^verbatim>\<open>POST /session\<close> is decoded is not specified; both are parameters.
\<close>

datatype CreateSessionResponse = CreateSessionResponse string Capabilities

datatype DeleteSessionResponse = DeleteSessionResponse string

definition CreateSession ::
  "(Capabilities \<Rightarrow> string \<times> error option) \<Rightarrow> (string \<Rightarrow> (string \<times> Capabilities) \<times> error option)
     \<Rightarrow> 'w system \<Rightarrow> (error + CreateSessionResponse) \<times> 'w system" where
  "CreateSession encode decode \<sigma> =
     (let s = driver \<sigma>;
          requestURL = seleniumURL s @ ''/session''
      in case encode (capabilities s) of
           (payload, Some err) \<Rightarrow>
             (Inl (newMarshallingError err ''CreateSession()'' (CapabilitiesValue (capabilities s))),
              \<sigma>)
         | (payload, None) \<Rightarrow>
             (case apiService s requestURL ''POST'' (Some payload) (remote \<sigma>) of
                ((resp, Some e), w) \<Rightarrow>
                  (Inl (newCommunicationError e ''CreateSession'' requestURL resp),
                   \<sigma>\<lparr>remote := w\<rparr>)
              | ((resp, None), w) \<Rightarrow>
                  (case decode resp of
                     (r, Some e) \<Rightarrow>
                       (Inl (newUnmarshallingError e ''CreateSession'' resp), \<sigma>\<lparr>remote := w\<rparr>)
                   | ((sid, caps), None) \<Rightarrow>
                       (Inr (CreateSessionResponse sid caps),
                        \<lparr>driver = s\<lparr>sessionID := sid\<rparr>, remote = w\<rparr>))))"

definition DeleteSession :: "'w system \<Rightarrow> (error + DeleteSessionResponse) \<times> 'w system" where
  "DeleteSession \<sigma> =
     (let s = driver \<sigma>;
          requestURL = seleniumURL s @ ''/session/'' @ sessionID s
      in if sessionID s = '''' then (Inl (newSessionIDError ''DeleteSession()''), \<sigma>)
         else
           case stateRequest \<lparr>url = requestURL, httpMethod = ''DELETE'', body = None,
                               callingMethod = ''DeleteSession''\<rparr> \<sigma> of
             (Inl err, \<sigma>') \<Rightarrow> (Inl err, \<sigma>')
           | (Inr (StateResponse st), \<sigma>') \<Rightarrow>
               (Inr (DeleteSessionResponse st),
                \<sigma>'\<lparr>driver := (driver \<sigma>')\<lparr>sessionID := ''''\<rparr>\<rparr>))"

subsection \<open>A transport that records its calls\<close>

text \<open>
  The state of this transport is the list of the calls made so far. Every call is added
  to the list and answered with the same reply.
\<close>

type_synonym call = "string \<times> string \<times> string option"

definition recording :: "string \<times> error option \<Rightarrow> call list apiService" where
  "recording reply u m b calls = (reply, calls @ [(u, m, b)])"

definition testDriver :: "string \<Rightarrow> string \<times> error option \<Rightarrow> call list seleniumWebDriver" where
  "testDriver sid reply =
     \<lparr>seleniumURL = ''http://host:4444'', sessionID = sid,
      capabilities = \<lparr>Browser = \<lparr>BrowserName = ''firefox''\<rparr>\<rparr>,
      apiService = recording reply\<rparr>"

definition testSystem :: "string \<Rightarrow> string \<times> error option \<Rightarrow> call list system" where
  "testSystem sid reply = \<lparr>driver = testDriver sid reply, remote = []\<rparr>"

text \<open>
  A recording transport that fails at one URL only: a request to that URL is answered
  with some bytes and an error whose text names the URL; every other request gets the
  given reply.
\<close>

definition failingAt :: "string \<Rightarrow> string \<times> error option \<Rightarrow> call list apiService" where
  "failingAt target reply u m b calls =
     (if u = target
      then ((''partial'', Some (ErrorString (''cannot reach '' @ u))), calls @ [(u, m, b)])
      else (reply, calls @ [(u, m, b)]))"

section \<open>Properties\<close>

subsection \<open>Library facts\<close>

lemma HasPrefix_iff: "HasPrefix s pre \<longleftrightarrow> (\<exists>r. s = pre @ r)"
proof
  assume "HasPrefix s pre"
  then have "s = pre @ drop (length pre) s"
    by (metis HasPrefix_def append_take_drop_id)
  then show "\<exists>r. s = pre @ r" ..
next
  assume "\<exists>r. s = pre @ r"
  then show "HasPrefix s pre"
    by (auto simp: HasPrefix_def)
qed

lemma HasSuffix_iff: "HasSuffix s suf \<longleftrightarrow> (\<exists>r. s = r @ suf)"
proof
  assume "HasSuffix s suf"
  then have "s = take (length s - length suf) s @ suf"
    by (metis HasSuffix_def append_take_drop_id)
  then show "\<exists>r. s = r @ suf" ..
next
  assume "\<exists>r. s = r @ suf"
  then show "HasSuffix s suf"
    by (auto simp: HasSuffix_def)
qed

lemma TrimSuffix_append: "TrimSuffix (r @ suf) suf = r"
  by (simp add: TrimSuffix_def HasSuffix_def)

lemma TrimSuffix_other: "\<not> HasSuffix s suf \<Longrightarrow> TrimSuffix s suf = s"
  by (simp add: TrimSuffix_def)

subsection \<open>Value constructors\<close>

text \<open>
  Claim C5, as amended. The three timeout factories perform no validation: for every
  argument, negative ones included, each returns a \<^verbatim>\<open>Timeout\<close> whose \<^verbatim>\<open>Type()\<close> is
  \<^verbatim>\<open>"script"\<close>, \<^verbatim>\<open>"page load"\<close> or \<^verbatim>\<open>"implicit"\<close> respectively and whose \<^verbatim>\<open>Timeout()\<close>
  is the argument.
\<close>

theorem Timeout_factories_keep_argument:
  "timeout_Type (SessionScriptTimeout to) = ''script''
   \<and> timeout_Timeout (SessionScriptTimeout to) = to
   \<and> timeout_Type (SessionPageLoadTimeout to) = ''page load''
   \<and> timeout_Timeout (SessionPageLoadTimeout to) = to
   \<and> timeout_Type (SessionImplicitWaitTimeout to) = ''implicit''
   \<and> timeout_Timeout (SessionImplicitWaitTimeout to) = to"
  by (simp add: SessionScriptTimeout_def SessionPageLoadTimeout_def
      SessionImplicitWaitTimeout_def)

text \<open>
  Claim C5 as stated fails: the argument \<^verbatim>\<open>-1\<close> is negative, and each factory returns a
  \<^verbatim>\<open>Timeout\<close> value holding \<^verbatim>\<open>-1\<close> instead of a failure.
\<close>

theorem Timeout_negative_counterexample:
  "sint (- 1 :: go_int) < 0
   \<and> SessionScriptTimeout (- 1) = Timeout ''script'' (- 1)
   \<and> SessionPageLoadTimeout (- 1) = Timeout ''page load'' (- 1)
   \<and> SessionImplicitWaitTimeout (- 1) = Timeout ''implicit'' (- 1)
   \<and> sint (timeout_Timeout (SessionScriptTimeout (- 1))) = - 1"
  by (simp add: SessionScriptTimeout_def SessionPageLoadTimeout_def
      SessionImplicitWaitTimeout_def)

text \<open>
  Claim C6. \<^verbatim>\<open>ByIndex(n)\<close> returns a \<^verbatim>\<open>By\<close> with \<^verbatim>\<open>Type() == "index"\<close> and
  \<^verbatim>\<open>Value() == n\<close> and no error for every \<^verbatim>\<open>n\<close> from 0 to 65535, and no \<^verbatim>\<open>By\<close> but an
  invalid-argument error for every \<^verbatim>\<open>n\<close> above 65535.
\<close>

theorem ByIndex_accepts_up_to_65535:
  "(n \<le> 65535 \<longrightarrow>
      (\<exists>b. ByIndex n = Inr b \<and> by_Type b = ''index'' \<and> by_Value b = UintValue n))
   \<and> (65535 < n \<longrightarrow> (\<exists>message v. ByIndex n = Inl (InvalidArgument message ''index'' v)))"
  by (auto simp: ByIndex_def newInvalidArgumentError_def)

theorem ByIndex_accepts_up_to_65535_witness:
  "(\<exists>b. ByIndex 0 = Inr b \<and> by_Type b = ''index'' \<and> by_Value b = UintValue 0)
   \<and> (\<exists>b. ByIndex 65535 = Inr b \<and> by_Type b = ''index'' \<and> by_Value b = UintValue 65535)
   \<and> (\<exists>message v. ByIndex 65536 = Inl (InvalidArgument message ''index'' v))"
  using ByIndex_accepts_up_to_65535 [of 0] ByIndex_accepts_up_to_65535 [of 65535]
    ByIndex_accepts_up_to_65535 [of 65536]
  by simp

text \<open>
  Claim C7. \<^verbatim>\<open>ByCSSSelector("")\<close> returns no \<^verbatim>\<open>By\<close> but an invalid-argument error; for
  every non-empty selector \<^verbatim>\<open>s\<close> it returns a \<^verbatim>\<open>By\<close> with \<^verbatim>\<open>Type() == "css selector"\<close>
  and \<^verbatim>\<open>Value()\<close> equal to \<^verbatim>\<open>s\<close> itself, and no error.
\<close>

theorem ByCSSSelector_keeps_selector:
  "(\<exists>message v. ByCSSSelector '''' = Inl (InvalidArgument message ''selector'' v))
   \<and> (selector \<noteq> '''' \<longrightarrow>
        (\<exists>b. ByCSSSelector selector = Inr b \<and> by_Type b = ''css selector''
               \<and> by_Value b = StringValue selector))"
  by (simp add: ByCSSSelector_def newInvalidArgumentError_def)

theorem ByCSSSelector_keeps_selector_witness:
  "(\<exists>message v. ByCSSSelector '''' = Inl (InvalidArgument message ''selector'' v))
   \<and> (\<exists>b. ByCSSSelector ''.foo'' = Inr b \<and> by_Type b = ''css selector''
            \<and> by_Value b = StringValue ''.foo'')"
  using ByCSSSelector_keeps_selector [of "''.foo''"]
  by simp

subsection \<open>Constructing a driver\<close>

text \<open>
  Claim C2. \<^verbatim>\<open>NewSeleniumWebDriver(serviceURL, capabilities)\<close> returns a driver and no
  error exactly when \<^verbatim>\<open>serviceURL\<close> is non-empty, begins with \<^verbatim>\<open>http://\<close> or
  \<^verbatim>\<open>https://\<close>, and the capabilities carry a non-empty browser name; for every other
  input it returns no driver and an error made by \<^verbatim>\<open>errors.New\<close>.
\<close>

theorem NewSeleniumWebDriver_succeeds_iff:
  "((\<exists>d. NewSeleniumWebDriver svc serviceURL caps = Inr d) \<longleftrightarrow>
      (serviceURL \<noteq> ''''
       \<and> ((\<exists>r. serviceURL = ''http://'' @ r) \<or> (\<exists>r. serviceURL = ''https://'' @ r))
       \<and> BrowserName (Browser caps) \<noteq> ''''))
   \<and> ((\<exists>message. NewSeleniumWebDriver svc serviceURL caps = Inl (errors_New message)) \<longleftrightarrow>
      \<not> (serviceURL \<noteq> ''''
         \<and> ((\<exists>r. serviceURL = ''http://'' @ r) \<or> (\<exists>r. serviceURL = ''https://'' @ r))
         \<and> BrowserName (Browser caps) \<noteq> ''''))"
  unfolding HasPrefix_iff [symmetric]
  by (auto simp: NewSeleniumWebDriver_def Let_def errors_New_def)

theorem NewSeleniumWebDriver_succeeds_iff_witness:
  "(\<exists>d. NewSeleniumWebDriver (recording ([], None)) ''https://host:4444''
           \<lparr>Browser = \<lparr>BrowserName = ''firefox''\<rparr>\<rparr> = Inr d)
   \<and> (\<exists>message. NewSeleniumWebDriver (recording ([], None)) '''' \<lparr>Browser = \<lparr>BrowserName = ''firefox''\<rparr>\<rparr>
          = Inl (errors_New message))
   \<and> (\<exists>message. NewSeleniumWebDriver (recording ([], None)) ''host:4444'' \<lparr>Browser = \<lparr>BrowserName = ''firefox''\<rparr>\<rparr>
          = Inl (errors_New message))
   \<and> (\<exists>message. NewSeleniumWebDriver (recording ([], None)) ''http://host:4444'' \<lparr>Browser = \<lparr>BrowserName = ''''\<rparr>\<rparr>
          = Inl (errors_New message))"
  using
    NewSeleniumWebDriver_succeeds_iff
      [of "recording ([], None)" "''https://host:4444''" "\<lparr>Browser = \<lparr>BrowserName = ''firefox''\<rparr>\<rparr>"]
    NewSeleniumWebDriver_succeeds_iff [of "recording ([], None)" "''''" "\<lparr>Browser = \<lparr>BrowserName = ''firefox''\<rparr>\<rparr>"]
    NewSeleniumWebDriver_succeeds_iff
      [of "recording ([], None)" "''host:4444''" "\<lparr>Browser = \<lparr>BrowserName = ''firefox''\<rparr>\<rparr>"]
    NewSeleniumWebDriver_succeeds_iff
      [of "recording ([], None)" "''http://host:4444''" "\<lparr>Browser = \<lparr>BrowserName = ''''\<rparr>\<rparr>"]
  by simp

text \<open>
  Claim C9. For every valid \<^verbatim>\<open>serviceURL\<close> that ends in a single \<^verbatim>\<open>/\<close>, the driver
  constructed from it and the driver constructed from the same string without that
  slash have the same \<^verbatim>\<open>DriverURL()\<close>, which is the string without the slash. The
  string without the slash is \<^verbatim>\<open>u\<close>; that the slash is single says that \<^verbatim>\<open>u\<close> does
  not end in a slash itself.
\<close>

theorem trailing_slash_same_DriverURL:
  assumes valid: "(\<exists>r. u @ ''/'' = ''http://'' @ r) \<or> (\<exists>r. u @ ''/'' = ''https://'' @ r)"
    and single: "\<not> (\<exists>v. u = v @ ''/'')"
    and browser: "BrowserName (Browser caps) \<noteq> ''''"
  shows "\<exists>d1 d2. NewSeleniumWebDriver svc (u @ ''/'') caps = Inr d1
           \<and> NewSeleniumWebDriver svc u caps = Inr d2
           \<and> DriverURL d1 = DriverURL d2 \<and> DriverURL d2 = u"
proof -
  have prefix_u: "HasPrefix u ''http://'' \<or> HasPrefix u ''https://''"
    using valid
  proof
    assume "\<exists>r. u @ ''/'' = ''http://'' @ r"
    then obtain r where r: "u @ ''/'' = ''http://'' @ r" ..
    have "r \<noteq> []"
    proof
      assume "r = []"
      with r have "u @ ''/'' = ''http:/'' @ ''/''" by simp
      then have "u = ''http:/''" by (simp only: append_same_eq)
      then have "u = ''http:'' @ ''/''" by simp
      with single show False by blast
    qed
    then obtain r' where "r = r' @ ''/''"
      using r by (metis append_butlast_last_id last_appendR last_snoc)
    with r have "u @ ''/'' = (''http://'' @ r') @ ''/''" by simp
    then have "u = ''http://'' @ r'" by (simp only: append_same_eq)
    then show ?thesis by (auto simp: HasPrefix_iff)
  next
    assume "\<exists>r. u @ ''/'' = ''https://'' @ r"
    then obtain r where r: "u @ ''/'' = ''https://'' @ r" ..
    have "r \<noteq> []"
    proof
      assume "r = []"
      with r have "u @ ''/'' = ''https:/'' @ ''/''" by simp
      then have "u = ''https:/''" by (simp only: append_same_eq)
      then have "u = ''https:'' @ ''/''" by simp
      with single show False by blast
    qed
    then obtain r' where "r = r' @ ''/''"
      using r by (metis append_butlast_last_id last_appendR last_snoc)
    with r have "u @ ''/'' = (''https://'' @ r') @ ''/''" by simp
    then have "u = ''https://'' @ r'" by (simp only: append_same_eq)
    then show ?thesis by (auto simp: HasPrefix_iff)
  qed
  then have u_nonempty: "u \<noteq> ''''"
    by (auto simp: HasPrefix_def)
  have prefix_slash: "HasPrefix (u @ ''/'') ''http://'' \<or> HasPrefix (u @ ''/'') ''https://''"
    using valid by (simp add: HasPrefix_iff)
  have no_suffix: "\<not> HasSuffix u ''/''"
    using single by (simp add: HasSuffix_iff)
  have suffix: "HasSuffix (u @ ''/'') ''/''"
    by (auto simp: HasSuffix_iff)
  have trim: "TrimSuffix (u @ ''/'') ''/'' = u"
    by (rule TrimSuffix_append)
  have with_slash: "NewSeleniumWebDriver svc (u @ ''/'') caps
      = Inr \<lparr>seleniumURL = u, sessionID = '''', capabilities = caps, apiService = svc\<rparr>"
    using prefix_slash browser suffix trim by (simp add: NewSeleniumWebDriver_def)
  have without_slash: "NewSeleniumWebDriver svc u caps
      = Inr \<lparr>seleniumURL = u, sessionID = '''', capabilities = caps, apiService = svc\<rparr>"
    using prefix_u u_nonempty browser no_suffix by (simp add: NewSeleniumWebDriver_def)
  show ?thesis
    by (simp add: with_slash without_slash DriverURL_def)
qed

theorem trailing_slash_same_DriverURL_witness:
  "\<exists>d1 d2. NewSeleniumWebDriver (recording ([], None)) ''http://host:4444/''
                \<lparr>Browser = \<lparr>BrowserName = ''firefox''\<rparr>\<rparr> = Inr d1
     \<and> NewSeleniumWebDriver (recording ([], None)) ''http://host:4444''
                \<lparr>Browser = \<lparr>BrowserName = ''firefox''\<rparr>\<rparr> = Inr d2
     \<and> DriverURL d1 = DriverURL d2 \<and> DriverURL d2 = ''http://host:4444''"
proof -
  have valid: "(\<exists>r. ''http://host:4444'' @ ''/'' = ''http://'' @ r)
      \<or> (\<exists>r. ''http://host:4444'' @ ''/'' = ''https://'' @ r)"
    by simp
  have single: "\<not> (\<exists>v. ''http://host:4444'' = v @ ''/'')"
  proof
    assume "\<exists>v. ''http://host:4444'' = v @ ''/''"
    then obtain v where "''http://host:4444'' = v @ ''/''" ..
    then have "last ''http://host:4444'' = last (v @ ''/'')" by (rule arg_cong)
    then show False by simp
  qed
  have browser: "BrowserName (Browser \<lparr>Browser = \<lparr>BrowserName = ''firefox''\<rparr>\<rparr>) \<noteq> ''''"
    by simp
  show ?thesis
    using trailing_slash_same_DriverURL [OF valid single browser, of "recording ([], None)"]
    by simp
qed

subsection \<open>The request helpers\<close>

lemma stateRequest_driver: "driver (snd (stateRequest req \<sigma>)) = driver \<sigma>"
  by (simp add: stateRequest_def split: prod.splits option.splits)

lemma valueRequest_driver: "driver (snd (valueRequest req \<sigma>)) = driver \<sigma>"
  by (simp add: valueRequest_def split: prod.splits option.splits)

lemma stateRequest_failure:
  assumes "apiService (driver \<sigma>) (url req) (httpMethod req) (body req) (remote \<sigma>)
             = ((resp, Some e), w)"
  shows "stateRequest req \<sigma>
           = (Inl (Communication e (callingMethod req) (url req) resp), \<sigma>\<lparr>remote := w\<rparr>)"
  using assms by (simp add: stateRequest_def newCommunicationError_def)

lemma valueRequest_failure:
  assumes "apiService (driver \<sigma>) (url req) (httpMethod req) (body req) (remote \<sigma>)
             = ((resp, Some e), w)"
  shows "valueRequest req \<sigma>
           = (Inl (Communication e (callingMethod req) (url req) resp), \<sigma>\<lparr>remote := w\<rparr>)"
  using assms by (simp add: valueRequest_def newCommunicationError_def)

lemma stateRequest_undecodable:
  assumes "apiService (driver \<sigma>) (url req) (httpMethod req) (body req) (remote \<sigma>)
             = ((resp, None), w)"
    and "snd (json_Unmarshal_stateResponse resp (StateResponse '''')) = Some e"
  shows "stateRequest req \<sigma>
           = (Inl (Unmarshalling e (callingMethod req) resp), \<sigma>\<lparr>remote := w\<rparr>)"
  using assms by (auto simp: stateRequest_def newUnmarshallingError_def split: prod.splits)

lemma valueRequest_undecodable:
  assumes "apiService (driver \<sigma>) (url req) (httpMethod req) (body req) (remote \<sigma>)
             = ((resp, None), w)"
    and "snd (json_Unmarshal_valueResponse resp (ValueResponse '''' '''')) = Some e"
  shows "valueRequest req \<sigma>
           = (Inl (Unmarshalling e (callingMethod req) resp), \<sigma>\<lparr>remote := w\<rparr>)"
  using assms by (auto simp: valueRequest_def newUnmarshallingError_def split: prod.splits)

lemma stateRequest_decoded:
  assumes "apiService (driver \<sigma>) (url req) (httpMethod req) (body req) (remote \<sigma>)
             = ((resp, None), w)"
    and "json_Unmarshal_stateResponse resp (StateResponse '''') = (r, None)"
  shows "stateRequest req \<sigma> = (Inr r, \<sigma>\<lparr>remote := w\<rparr>)"
  using assms by (simp add: stateRequest_def)

lemma valueRequest_decoded:
  assumes "apiService (driver \<sigma>) (url req) (httpMethod req) (body req) (remote \<sigma>)
             = ((resp, None), w)"
    and "json_Unmarshal_valueResponse resp (ValueResponse '''' '''') = (r, None)"
  shows "valueRequest req \<sigma> = (Inr r, \<sigma>\<lparr>remote := w\<rparr>)"
  using assms by (simp add: valueRequest_def)

subsection \<open>Commands without a session\<close>

text \<open>
  Claim C1. On a driver whose \<^verbatim>\<open>sessionID\<close> is empty, each of \<^verbatim>\<open>Go\<close>, \<^verbatim>\<open>CurrentURL\<close>,
  \<^verbatim>\<open>Back\<close>, \<^verbatim>\<open>Forward\<close>, \<^verbatim>\<open>Refresh\<close> and \<^verbatim>\<open>Title\<close> returns the missing-session
  error that names the command, and the transport is not invoked: whatever the
  transport is, the state of the remote end after the call is the state before it.
\<close>

theorem missing_session_no_request:
  assumes "sessionID (driver \<sigma>) = ''''"
  shows "Go goURL \<sigma> = (Inl (MissingSession ''Go()''), \<sigma>)
     \<and> CurrentURL \<sigma> = (Inl (MissingSession ''CurrentURL()''), \<sigma>)
     \<and> Back \<sigma> = (Inl (MissingSession ''Back()''), \<sigma>)
     \<and> Forward \<sigma> = (Inl (MissingSession ''Forward()''), \<sigma>)
     \<and> Refresh \<sigma> = (Inl (MissingSession ''Refresh()''), \<sigma>)
     \<and> Title \<sigma> = (Inl (MissingSession ''Title()''), \<sigma>)"
  using assms
  by (simp add: Go_def CurrentURL_def Back_def Forward_def Refresh_def Title_def
      newSessionIDError_def)

text \<open>
  The instance with the recording transport: after each of the six commands on a driver
  without a session, the list of recorded calls is still empty.
\<close>

theorem missing_session_no_request_witness:
  "fst (Go ''https://x'' (testSystem '''' (''{}'', None))) = Inl (MissingSession ''Go()'')
   \<and> remote (snd (Go ''https://x'' (testSystem '''' (''{}'', None)))) = []
   \<and> fst (CurrentURL (testSystem '''' (''{}'', None))) = Inl (MissingSession ''CurrentURL()'')
   \<and> remote (snd (CurrentURL (testSystem '''' (''{}'', None)))) = []
   \<and> fst (Back (testSystem '''' (''{}'', None))) = Inl (MissingSession ''Back()'')
   \<and> remote (snd (Back (testSystem '''' (''{}'', None)))) = []
   \<and> fst (Forward (testSystem '''' (''{}'', None))) = Inl (MissingSession ''Forward()'')
   \<and> remote (snd (Forward (testSystem '''' (''{}'', None)))) = []
   \<and> fst (Refresh (testSystem '''' (''{}'', None))) = Inl (MissingSession ''Refresh()'')
   \<and> remote (snd (Refresh (testSystem '''' (''{}'', None)))) = []
   \<and> fst (Title (testSystem '''' (''{}'', None))) = Inl (MissingSession ''Title()'')
   \<and> remote (snd (Title (testSystem '''' (''{}'', None)))) = []"
proof -
  have "sessionID (driver (testSystem '''' (''{}'', None))) = ''''"
    by (simp add: testSystem_def testDriver_def)
  from missing_session_no_request [OF this, of "''https://x''"]
  show ?thesis
    by (simp add: testSystem_def)
qed

subsection \<open>Transport failures\<close>

text \<open>
  Claim C8. When the transport returns a failure for the request it is given,
  \<^verbatim>\<open>stateRequest\<close> and \<^verbatim>\<open>valueRequest\<close> return a communication error that carries the
  transport's error, the calling command's name, the request URL and the bytes
  received, and no response value. So does every command built on them: on a driver
  with a session, if the transport fails for the request the command sends (for \<^verbatim>\<open>Go\<close>:
  the \<^verbatim>\<open>POST\<close> of the encoded target to \<^verbatim>\<open>.../url\<close>), the command returns that error
  with its own name and URL. Nothing is assumed about what the transport does for any
  other request.
\<close>

theorem transport_failure_is_communication_error:
  "(apiService (driver \<sigma>) (url req) (httpMethod req) (body req) (remote \<sigma>)
        = ((resp, Some e), w) \<longrightarrow>
      stateRequest req \<sigma>
        = (Inl (Communication e (callingMethod req) (url req) resp), \<sigma>\<lparr>remote := w\<rparr>)
      \<and> valueRequest req \<sigma>
        = (Inl (Communication e (callingMethod req) (url req) resp), \<sigma>\<lparr>remote := w\<rparr>))
   \<and> (sessionID (driver \<sigma>) \<noteq> ''''
        \<and> ((\<exists>r. goURL = ''http://'' @ r) \<or> (\<exists>r. goURL = ''https://'' @ r))
        \<and> apiService (driver \<sigma>)
             (seleniumURL (driver \<sigma>) @ ''/session/'' @ sessionID (driver \<sigma>) @ ''/url'')
             ''POST'' (Some (fst (json_Marshal [(''url'', goURL)]))) (remote \<sigma>)
            = ((resp, Some e), w) \<longrightarrow>
      Go goURL \<sigma>
        = (Inl (Communication e ''Go''
                 (seleniumURL (driver \<sigma>) @ ''/session/'' @ sessionID (driver \<sigma>) @ ''/url'')
                 resp),
           \<sigma>\<lparr>remote := w\<rparr>))
   \<and> (sessionID (driver \<sigma>) \<noteq> ''''
        \<and> apiService (driver \<sigma>)
             (seleniumURL (driver \<sigma>) @ ''/session/'' @ sessionID (driver \<sigma>) @ ''/url'')
             ''GET'' None (remote \<sigma>)
            = ((resp, Some e), w) \<longrightarrow>
      CurrentURL \<sigma>
        = (Inl (Communication e ''CurrentURL''
                 (seleniumURL (driver \<sigma>) @ ''/session/'' @ sessionID (driver \<sigma>) @ ''/url'')
                 resp),
           \<sigma>\<lparr>remote := w\<rparr>))
   \<and> (sessionID (driver \<sigma>) \<noteq> ''''
        \<and> apiService (driver \<sigma>)
             (seleniumURL (driver \<sigma>) @ ''/session/'' @ sessionID (driver \<sigma>) @ ''/back'')
             ''POST'' None (remote \<sigma>)
            = ((resp, Some e), w) \<longrightarrow>
      Back \<sigma>
        = (Inl (Communication e ''Back''
                 (seleniumURL (driver \<sigma>) @ ''/session/'' @ sessionID (driver \<sigma>) @ ''/back'')
                 resp),
           \<sigma>\<lparr>remote := w\<rparr>))
   \<and> (sessionID (driver \<sigma>) \<noteq> ''''
        \<and> apiService (driver \<sigma>)
             (seleniumURL (driver \<sigma>) @ ''/session/'' @ sessionID (driver \<sigma>) @ ''/forward'')
             ''POST'' None (remote \<sigma>)
            = ((resp, Some e), w) \<longrightarrow>
      Forward \<sigma>
        = (Inl (Communication e ''Forward''
                 (seleniumURL (driver \<sigma>) @ ''/session/'' @ sessionID (driver \<sigma>) @ ''/forward'')
                 resp),
           \<sigma>\<lparr>remote := w\<rparr>))
   \<and> (sessionID (driver \<sigma>) \<noteq> ''''
        \<and> apiService (driver \<sigma>)
             (seleniumURL (driver \<sigma>) @ ''/session/'' @ sessionID (driver \<sigma>) @ ''/refresh'')
             ''POST'' None (remote \<sigma>)
            = ((resp, Some e), w) \<longrightarrow>
      Refresh \<sigma>
        = (Inl (Communication e ''Refresh''
                 (seleniumURL (driver \<sigma>) @ ''/session/'' @ sessionID (driver \<sigma>) @ ''/refresh'')
                 resp),
           \<sigma>\<lparr>remote := w\<rparr>))
   \<and> (sessionID (driver \<sigma>) \<noteq> ''''
        \<and> apiService (driver \<sigma>)
             (seleniumURL (driver \<sigma>) @ ''/session/'' @ sessionID (driver \<sigma>) @ ''/title'')
             ''GET'' None (remote \<sigma>)
            = ((resp, Some e), w) \<longrightarrow>
      Title \<sigma>
        = (Inl (Communication e ''Title''
                 (seleniumURL (driver \<sigma>) @ ''/session/'' @ sessionID (driver \<sigma>) @ ''/title'')
                 resp),
           \<sigma>\<lparr>remote := w\<rparr>))"
proof (intro conjI impI; (elim conjE)?)
  assume "apiService (driver \<sigma>) (url req) (httpMethod req) (body req) (remote \<sigma>)
      = ((resp, Some e), w)"
  then show "stateRequest req \<sigma>
      = (Inl (Communication e (callingMethod req) (url req) resp), \<sigma>\<lparr>remote := w\<rparr>)"
    by (rule stateRequest_failure)
next
  assume "apiService (driver \<sigma>) (url req) (httpMethod req) (body req) (remote \<sigma>)
      = ((resp, Some e), w)"
  then show "valueRequest req \<sigma>
      = (Inl (Communication e (callingMethod req) (url req) resp), \<sigma>\<lparr>remote := w\<rparr>)"
    by (rule valueRequest_failure)
next
  assume session: "sessionID (driver \<sigma>) \<noteq> ''''"
    and target: "(\<exists>r. goURL = ''http://'' @ r) \<or> (\<exists>r. goURL = ''https://'' @ r)"
    and fails: "apiService (driver \<sigma>)
        (seleniumURL (driver \<sigma>) @ ''/session/'' @ sessionID (driver \<sigma>) @ ''/url'')
        ''POST'' (Some (fst (json_Marshal [(''url'', goURL)]))) (remote \<sigma>)
      = ((resp, Some e), w)"
  from target have prefix: "HasPrefix goURL ''https://'' \<or> HasPrefix goURL ''http://''"
    by (auto simp: HasPrefix_iff)
  from target have nonempty: "goURL \<noteq> ''''"
    by auto
  have marshalled: "json_Marshal [(''url'', goURL)] = (fst (json_Marshal [(''url'', goURL)]), None)"
    by (simp add: json_Marshal_def)
  let ?req = "\<lparr>url = Sprintf_session ''/url'' (seleniumURL (driver \<sigma>)) (sessionID (driver \<sigma>)),
               httpMethod = ''POST'', body = Some (fst (json_Marshal [(''url'', goURL)])),
               callingMethod = ''Go''\<rparr>"
  have "stateRequest ?req \<sigma>
      = (Inl (Communication e (callingMethod ?req) (url ?req) resp), \<sigma>\<lparr>remote := w\<rparr>)"
    using fails by (intro stateRequest_failure) (simp add: Sprintf_session_def)
  then have sent: "stateRequest ?req \<sigma>
      = (Inl (Communication e ''Go''
               (seleniumURL (driver \<sigma>) @ ''/session/'' @ sessionID (driver \<sigma>) @ ''/url'') resp),
         \<sigma>\<lparr>remote := w\<rparr>)"
    by (simp add: Sprintf_session_def)
  have "Go goURL \<sigma>
      = (case json_Marshal [(''url'', goURL)] of
           (marshalledJSON, Some err) \<Rightarrow>
             (Inl (newMarshallingError err ''Go()'' (ParamsValue [(''url'', goURL)])), \<sigma>)
         | (marshalledJSON, None) \<Rightarrow>
             (case stateRequest
                     \<lparr>url = Sprintf_session ''/url'' (seleniumURL (driver \<sigma>))
                              (sessionID (driver \<sigma>)),
                      httpMethod = ''POST'', body = Some marshalledJSON,
                      callingMethod = ''Go''\<rparr> \<sigma> of
                (Inl err, \<sigma>') \<Rightarrow> (Inl err, \<sigma>')
              | (Inr (StateResponse st), \<sigma>') \<Rightarrow> (Inr (GoResponse st), \<sigma>')))"
    using session prefix nonempty by (simp add: Go_def Let_def)
  also have "\<dots> = (case stateRequest ?req \<sigma> of
                (Inl err, \<sigma>') \<Rightarrow> (Inl err, \<sigma>')
              | (Inr (StateResponse st), \<sigma>') \<Rightarrow> (Inr (GoResponse st), \<sigma>'))"
    by (subst marshalled) simp
  also have "\<dots> = (Inl (Communication e ''Go''
               (seleniumURL (driver \<sigma>) @ ''/session/'' @ sessionID (driver \<sigma>) @ ''/url'') resp),
         \<sigma>\<lparr>remote := w\<rparr>)"
    by (simp add: sent)
  finally show "Go goURL \<sigma>
      = (Inl (Communication e ''Go''
               (seleniumURL (driver \<sigma>) @ ''/session/'' @ sessionID (driver \<sigma>) @ ''/url'') resp),
         \<sigma>\<lparr>remote := w\<rparr>)" .
next
  assume "sessionID (driver \<sigma>) \<noteq> ''''"
    and "apiService (driver \<sigma>)
        (seleniumURL (driver \<sigma>) @ ''/session/'' @ sessionID (driver \<sigma>) @ ''/url'')
        ''GET'' None (remote \<sigma>)
      = ((resp, Some e), w)"
  then show "CurrentURL \<sigma>
      = (Inl (Communication e ''CurrentURL''
               (seleniumURL (driver \<sigma>) @ ''/session/'' @ sessionID (driver \<sigma>) @ ''/url'') resp),
         \<sigma>\<lparr>remote := w\<rparr>)"
    by (simp add: CurrentURL_def Let_def Sprintf_session_def valueRequest_failure)
next
  assume "sessionID (driver \<sigma>) \<noteq> ''''"
    and "apiService (driver \<sigma>)
        (seleniumURL (driver \<sigma>) @ ''/session/'' @ sessionID (driver \<sigma>) @ ''/back'')
        ''POST'' None (remote \<sigma>)
      = ((resp, Some e), w)"
  then show "Back \<sigma>
      = (Inl (Communication e ''Back''
               (seleniumURL (driver \<sigma>) @ ''/session/'' @ sessionID (driver \<sigma>) @ ''/back'') resp),
         \<sigma>\<lparr>remote := w\<rparr>)"
    by (simp add: Back_def Let_def Sprintf_session_def stateRequest_failure)
next
  assume "sessionID (driver \<sigma>) \<noteq> ''''"
    and "apiService (driver \<sigma>)
        (seleniumURL (driver \<sigma>) @ ''/session/'' @ sessionID (driver \<sigma>) @ ''/forward'')
        ''POST'' None (remote \<sigma>)
      = ((resp, Some e), w)"
  then show "Forward \<sigma>
      = (Inl (Communication e ''Forward''
               (seleniumURL (driver \<sigma>) @ ''/session/'' @ sessionID (driver \<sigma>) @ ''/forward'') resp),
         \<sigma>\<lparr>remote := w\<rparr>)"
    by (simp add: Forward_def Let_def Sprintf_session_def stateRequest_failure)
next
  assume "sessionID (driver \<sigma>) \<noteq> ''''"
    and "apiService (driver \<sigma>)
        (seleniumURL (driver \<sigma>) @ ''/session/'' @ sessionID (driver \<sigma>) @ ''/refresh'')
        ''POST'' None (remote \<sigma>)
      = ((resp, Some e), w)"
  then show "Refresh \<sigma>
      = (Inl (Communication e ''Refresh''
               (seleniumURL (driver \<sigma>) @ ''/session/'' @ sessionID (driver \<sigma>) @ ''/refresh'') resp),
         \<sigma>\<lparr>remote := w\<rparr>)"
    by (simp add: Refresh_def Let_def Sprintf_session_def stateRequest_failure)
next
  assume "sessionID (driver \<sigma>) \<noteq> ''''"
    and "apiService (driver \<sigma>)
        (seleniumURL (driver \<sigma>) @ ''/session/'' @ sessionID (driver \<sigma>) @ ''/title'')
        ''GET'' None (remote \<sigma>)
      = ((resp, Some e), w)"
  then show "Title \<sigma>
      = (Inl (Communication e ''Title''
               (seleniumURL (driver \<sigma>) @ ''/session/'' @ sessionID (driver \<sigma>) @ ''/title'') resp),
         \<sigma>\<lparr>remote := w\<rparr>)"
    by (simp add: Title_def Let_def Sprintf_session_def valueRequest_failure)
qed

text \<open>
  Two instances. On a transport that fails for every request, each helper and each
  command returns the communication error for its own request. On a transport that
  fails only at \<^verbatim>\<open>.../session/abc/back\<close>, with an error that names the URL, \<^verbatim>\<open>Back\<close>
  returns the communication error carrying that error, after exactly that one call.
\<close>

theorem transport_failure_is_communication_error_witness:
  \<open>fst (stateRequest \<lparr>url = ''http://host:4444/status'', httpMethod = ''GET'', body = None,
                       callingMethod = ''SessionStatus''\<rparr>
          (testSystem ''abc'' (''partial'', Some (ErrorString ''connection refused''))))
     = Inl (Communication (ErrorString ''connection refused'') ''SessionStatus''
              ''http://host:4444/status'' ''partial'')
   \<and> fst (valueRequest \<lparr>url = ''http://host:4444/status'', httpMethod = ''GET'', body = None,
                          callingMethod = ''SessionStatus''\<rparr>
          (testSystem ''abc'' (''partial'', Some (ErrorString ''connection refused''))))
     = Inl (Communication (ErrorString ''connection refused'') ''SessionStatus''
              ''http://host:4444/status'' ''partial'')
   \<and> fst (Go ''https://x'' (testSystem ''abc'' (''partial'', Some (ErrorString ''connection refused''))))
     = Inl (Communication (ErrorString ''connection refused'') ''Go''
              ''http://host:4444/session/abc/url'' ''partial'')
   \<and> fst (CurrentURL (testSystem ''abc'' (''partial'', Some (ErrorString ''connection refused''))))
     = Inl (Communication (ErrorString ''connection refused'') ''CurrentURL''
              ''http://host:4444/session/abc/url'' ''partial'')
   \<and> fst (Back (testSystem ''abc'' (''partial'', Some (ErrorString ''connection refused''))))
     = Inl (Communication (ErrorString ''connection refused'') ''Back''
              ''http://host:4444/session/abc/back'' ''partial'')
   \<and> fst (Forward (testSystem ''abc'' (''partial'', Some (ErrorString ''connection refused''))))
     = Inl (Communication (ErrorString ''connection refused'') ''Forward''
              ''http://host:4444/session/abc/forward'' ''partial'')
   \<and> fst (Refresh (testSystem ''abc'' (''partial'', Some (ErrorString ''connection refused''))))
     = Inl (Communication (ErrorString ''connection refused'') ''Refresh''
              ''http://host:4444/session/abc/refresh'' ''partial'')
   \<and> fst (Title (testSystem ''abc'' (''partial'', Some (ErrorString ''connection refused''))))
     = Inl (Communication (ErrorString ''connection refused'') ''Title''
              ''http://host:4444/session/abc/title'' ''partial'')
   \<and> Back \<lparr>driver = (testDriver ''abc'' (''{"state":"success"}'', None))
                         \<lparr>apiService := failingAt ''http://host:4444/session/abc/back''
                                           (''{"state":"success"}'', None)\<rparr>,
             remote = []\<rparr>
     = (Inl (Communication (ErrorString ''cannot reach http://host:4444/session/abc/back'')
               ''Back'' ''http://host:4444/session/abc/back'' ''partial''),
        \<lparr>driver = (testDriver ''abc'' (''{"state":"success"}'', None))
                         \<lparr>apiService := failingAt ''http://host:4444/session/abc/back''
                                           (''{"state":"success"}'', None)\<rparr>,
         remote = [(''http://host:4444/session/abc/back'', ''POST'', None)]\<rparr>)\<close>
proof -
  let ?err = "ErrorString ''connection refused''"
  let ?\<sigma> = "testSystem ''abc'' (''partial'', Some ?err)"
  let ?status = "\<lparr>url = ''http://host:4444/status'', httpMethod = ''GET'', body = None,
                   callingMethod = ''SessionStatus''\<rparr>"
  let ?\<tau> = \<open>\<lparr>driver = (testDriver ''abc'' (''{"state":"success"}'', None))
                         \<lparr>apiService := failingAt ''http://host:4444/session/abc/back''
                                           (''{"state":"success"}'', None)\<rparr>,
            remote = []\<rparr>\<close>
  note failure = transport_failure_is_communication_error
  have fails: "apiService (driver ?\<sigma>) u m b (remote ?\<sigma>) = ((''partial'', Some ?err), [(u, m, b)])"
    for u m b
    by (simp add: testSystem_def testDriver_def recording_def)
  have base: "seleniumURL (driver ?\<sigma>) = ''http://host:4444''" "sessionID (driver ?\<sigma>) = ''abc''"
    by (simp_all add: testSystem_def testDriver_def)
  have target: "(\<exists>r. ''https://x'' = ''http://'' @ r) \<or> (\<exists>r. ''https://x'' = ''https://'' @ r)"
    by simp
  have helpers: "fst (stateRequest ?status ?\<sigma>)
        = Inl (Communication ?err ''SessionStatus'' ''http://host:4444/status'' ''partial'')"
      "fst (valueRequest ?status ?\<sigma>)
        = Inl (Communication ?err ''SessionStatus'' ''http://host:4444/status'' ''partial'')"
    using failure [where \<sigma> = "?\<sigma>" and req = "?status" and resp = "''partial''" and e = "?err"
        and w = "[(''http://host:4444/status'', ''GET'', None)]", THEN conjunct1]
      fails [of "''http://host:4444/status''" "''GET''" None]
    by simp_all
  have go_fails: "fst (Go ''https://x'' ?\<sigma>)
      = Inl (Communication ?err ''Go'' ''http://host:4444/session/abc/url'' ''partial'')"
    using failure [where \<sigma> = "?\<sigma>" and goURL = "''https://x''" and resp = "''partial''"
        and e = "?err"
        and w = "[(''http://host:4444/session/abc/url'', ''POST'',
                   Some (fst (json_Marshal [(''url'', ''https://x'')])))]",
        THEN conjunct2, THEN conjunct1]
      fails [of "''http://host:4444/session/abc/url''" "''POST''"
        "Some (fst (json_Marshal [(''url'', ''https://x'')]))"]
      target
    by (simp add: base)
  have currentURL_fails: "fst (CurrentURL ?\<sigma>)
      = Inl (Communication ?err ''CurrentURL'' ''http://host:4444/session/abc/url'' ''partial'')"
    using failure [where \<sigma> = "?\<sigma>" and resp = "''partial''" and e = "?err"
        and w = "[(''http://host:4444/session/abc/url'', ''GET'', None)]",
        THEN conjunct2, THEN conjunct2, THEN conjunct1]
      fails [of "''http://host:4444/session/abc/url''" "''GET''" None]
    by (simp add: base)
  have back_fails: "fst (Back ?\<sigma>)
      = Inl (Communication ?err ''Back'' ''http://host:4444/session/abc/back'' ''partial'')"
    using failure [where \<sigma> = "?\<sigma>" and resp = "''partial''" and e = "?err"
        and w = "[(''http://host:4444/session/abc/back'', ''POST'', None)]",
        THEN conjunct2, THEN conjunct2, THEN conjunct2, THEN conjunct1]
      fails [of "''http://host:4444/session/abc/back''" "''POST''" None]
    by (simp add: base)
  have forward_fails: "fst (Forward ?\<sigma>)
      = Inl (Communication ?err ''Forward'' ''http://host:4444/session/abc/forward'' ''partial'')"
    using failure [where \<sigma> = "?\<sigma>" and resp = "''partial''" and e = "?err"
        and w = "[(''http://host:4444/session/abc/forward'', ''POST'', None)]",
        THEN conjunct2, THEN conjunct2, THEN conjunct2, THEN conjunct2, THEN conjunct1]
      fails [of "''http://host:4444/session/abc/forward''" "''POST''" None]
    by (simp add: base)
  have refresh_fails: "fst (Refresh ?\<sigma>)
      = Inl (Communication ?err ''Refresh'' ''http://host:4444/session/abc/refresh'' ''partial'')"
    using failure [where \<sigma> = "?\<sigma>" and resp = "''partial''" and e = "?err"
        and w = "[(''http://host:4444/session/abc/refresh'', ''POST'', None)]",
        THEN conjunct2, THEN conjunct2, THEN conjunct2, THEN conjunct2, THEN conjunct2,
        THEN conjunct1]
      fails [of "''http://host:4444/session/abc/refresh''" "''POST''" None]
    by (simp add: base)
  have title_fails: "fst (Title ?\<sigma>)
      = Inl (Communication ?err ''Title'' ''http://host:4444/session/abc/title'' ''partial'')"
    using failure [where \<sigma> = "?\<sigma>" and resp = "''partial''" and e = "?err"
        and w = "[(''http://host:4444/session/abc/title'', ''GET'', None)]",
        THEN conjunct2, THEN conjunct2, THEN conjunct2, THEN conjunct2, THEN conjunct2,
        THEN conjunct2]
      fails [of "''http://host:4444/session/abc/title''" "''GET''" None]
    by (simp add: base)
  have one_url: "Back ?\<tau>
      = (Inl (Communication (ErrorString ''cannot reach http://host:4444/session/abc/back'')
                ''Back'' ''http://host:4444/session/abc/back'' ''partial''),
         ?\<tau>\<lparr>remote := [(''http://host:4444/session/abc/back'', ''POST'', None)]\<rparr>)"
    using failure [where \<sigma> = "?\<tau>" and resp = "''partial''"
        and e = "ErrorString ''cannot reach http://host:4444/session/abc/back''"
        and w = "[(''http://host:4444/session/abc/back'', ''POST'', None)]",
        THEN conjunct2, THEN conjunct2, THEN conjunct2, THEN conjunct1]
    by (simp add: testDriver_def failingAt_def)
  show ?thesis
    using helpers go_fails currentURL_fails back_fails forward_fails refresh_fails
      title_fails one_url
    by simp
qed

subsection \<open>The driver is not changed by a navigation command\<close>

text \<open>
  Claim C10. Each of \<^verbatim>\<open>Go\<close>, \<^verbatim>\<open>CurrentURL\<close>, \<^verbatim>\<open>Back\<close>, \<^verbatim>\<open>Forward\<close>, \<^verbatim>\<open>Refresh\<close> and
  \<^verbatim>\<open>Title\<close> leaves the driver as it was (its \<^verbatim>\<open>seleniumURL\<close>, \<^verbatim>\<open>sessionID\<close> and
  \<^verbatim>\<open>capabilities\<close> in particular), whether the call succeeds or fails.
  \<^verbatim>\<open>CreateSession\<close> and \<^verbatim>\<open>DeleteSession\<close> leave the driver as it was when they fail; when
  they succeed they change the \<^verbatim>\<open>sessionID\<close> and nothing else.
\<close>

theorem navigation_keeps_driver:
  "driver (snd (Go goURL \<sigma>)) = driver \<sigma>
   \<and> driver (snd (CurrentURL \<sigma>)) = driver \<sigma>
   \<and> driver (snd (Back \<sigma>)) = driver \<sigma>
   \<and> driver (snd (Forward \<sigma>)) = driver \<sigma>
   \<and> driver (snd (Refresh \<sigma>)) = driver \<sigma>
   \<and> driver (snd (Title \<sigma>)) = driver \<sigma>
   \<and> driver (snd (CreateSession encode decode \<sigma>))
       = (case fst (CreateSession encode decode \<sigma>) of
            Inl err \<Rightarrow> driver \<sigma>
          | Inr (CreateSessionResponse sid caps) \<Rightarrow> (driver \<sigma>)\<lparr>sessionID := sid\<rparr>)
   \<and> driver (snd (DeleteSession \<sigma>))
       = (case fst (DeleteSession \<sigma>) of
            Inl err \<Rightarrow> driver \<sigma>
          | Inr r \<Rightarrow> (driver \<sigma>)\<lparr>sessionID := ''''\<rparr>)"
proof -
  have state: "driver \<sigma>' = driver \<sigma>" if "stateRequest req \<sigma> = (r, \<sigma>')" for req r \<sigma>'
    using stateRequest_driver [of req \<sigma>] that by simp
  have val: "driver \<sigma>' = driver \<sigma>" if "valueRequest req \<sigma> = (r, \<sigma>')" for req r \<sigma>'
    using valueRequest_driver [of req \<sigma>] that by simp
  have "driver (snd (Go goURL \<sigma>)) = driver \<sigma>"
    by (auto simp: Go_def Let_def split: prod.splits option.splits sum.splits
        stateResponse.splits dest: state)
  moreover have "driver (snd (CurrentURL \<sigma>)) = driver \<sigma>"
    by (auto simp: CurrentURL_def Let_def split: prod.splits sum.splits valueResponse.splits
        dest: val)
  moreover have "driver (snd (Back \<sigma>)) = driver \<sigma>"
    by (auto simp: Back_def Let_def split: prod.splits sum.splits stateResponse.splits
        dest: state)
  moreover have "driver (snd (Forward \<sigma>)) = driver \<sigma>"
    by (auto simp: Forward_def Let_def split: prod.splits sum.splits stateResponse.splits
        dest: state)
  moreover have "driver (snd (Refresh \<sigma>)) = driver \<sigma>"
    by (auto simp: Refresh_def Let_def split: prod.splits sum.splits stateResponse.splits
        dest: state)
  moreover have "driver (snd (Title \<sigma>)) = driver \<sigma>"
    by (auto simp: Title_def Let_def split: prod.splits sum.splits valueResponse.splits
        dest: val)
  moreover have "driver (snd (CreateSession encode decode \<sigma>))
       = (case fst (CreateSession encode decode \<sigma>) of
            Inl err \<Rightarrow> driver \<sigma>
          | Inr (CreateSessionResponse sid caps) \<Rightarrow> (driver \<sigma>)\<lparr>sessionID := sid\<rparr>)"
    by (simp add: CreateSession_def Let_def split: prod.splits option.splits)
  moreover have "driver (snd (DeleteSession \<sigma>))
       = (case fst (DeleteSession \<sigma>) of
            Inl err \<Rightarrow> driver \<sigma>
          | Inr r \<Rightarrow> (driver \<sigma>)\<lparr>sessionID := ''''\<rparr>)"
    by (auto simp: DeleteSession_def Let_def split: prod.splits sum.splits stateResponse.splits
        dest: state)
  ultimately show ?thesis by blast
qed

theorem navigation_keeps_driver_witness:
  "driver (snd (Go ''https://x'' (testSystem ''abc'' (''<html>'', None))))
     = testDriver ''abc'' (''<html>'', None)
   \<and> driver (snd (Title (testSystem ''abc'' (''<html>'', None))))
     = testDriver ''abc'' (''<html>'', None)
   \<and> driver (snd (Back (testSystem '''' (''<html>'', None))))
     = testDriver '''' (''<html>'', None)"
  using
    navigation_keeps_driver [of "''https://x''" "testSystem ''abc'' (''<html>'', None)"]
    navigation_keeps_driver [of "''https://x''" "testSystem '''' (''<html>'', None)"]
  by (simp add: testSystem_def)

subsection \<open>Replies that cannot be decoded\<close>

text \<open>When the decoder fails: on a syntax error, \<dots>\<close>

lemma json_Unmarshal_stateResponse_syntax:
  "checkValid resp = None \<Longrightarrow> snd (json_Unmarshal_stateResponse resp r) = Some SyntaxError"
  by (simp add: json_Unmarshal_stateResponse_def)

lemma json_Unmarshal_valueResponse_syntax:
  "checkValid resp = None \<Longrightarrow> snd (json_Unmarshal_valueResponse resp r) = Some SyntaxError"
  by (simp add: json_Unmarshal_valueResponse_def)

text \<open>\<dots> on a top-level value that is neither an object nor \<^verbatim>\<open>null\<close>, \<dots>\<close>

lemma json_Unmarshal_stateResponse_kind:
  assumes "checkValid resp = Some v"
    and "(\<exists>b. v = JBool b) \<or> (\<exists>n. v = JNumber n) \<or> (\<exists>s. v = JString s) \<or> (\<exists>vs. v = JArray vs)"
  shows "\<exists>kind. snd (json_Unmarshal_stateResponse resp r) = Some (UnmarshalTypeError kind)"
  using assms by (auto simp: json_Unmarshal_stateResponse_def)

lemma json_Unmarshal_valueResponse_kind:
  assumes "checkValid resp = Some v"
    and "(\<exists>b. v = JBool b) \<or> (\<exists>n. v = JNumber n) \<or> (\<exists>s. v = JString s) \<or> (\<exists>vs. v = JArray vs)"
  shows "\<exists>kind. snd (json_Unmarshal_valueResponse resp r) = Some (UnmarshalTypeError kind)"
  using assms by (auto simp: json_Unmarshal_valueResponse_def)

text \<open>
  \<dots> and on an object with a member for a field of the struct whose value is neither a
  string nor \<^verbatim>\<open>null\<close>. An error, once saved, stays.
\<close>

lemma storeString_error:
  "(\<forall>s. x \<noteq> JString s) \<Longrightarrow> x \<noteq> JNull \<Longrightarrow> \<exists>kind. snd (storeString x old) = Some (UnmarshalTypeError kind)"
  by (cases x) auto

lemma object_stateResponse_saved:
  "snd (object_stateResponse kvs (r, Some e)) = Some e"
  by (induction kvs "(r, Some e)" arbitrary: r rule: object_stateResponse.induct)
    (auto simp: saveError_def)

lemma object_valueResponse_saved:
  "snd (object_valueResponse kvs (r, Some e)) = Some e"
  by (induction kvs "(r, Some e)" arbitrary: r rule: object_valueResponse.induct)
    (auto simp: saveError_def)

lemma object_stateResponse_member:
  assumes "(k, x) \<in> set kvs" and "equalFold ''state'' k"
    and "\<forall>s. x \<noteq> JString s" and "x \<noteq> JNull"
  shows "\<exists>e. snd (object_stateResponse kvs (r, saved)) = Some e"
  using assms(1)
proof (induction kvs arbitrary: r saved)
  case Nil
  then show ?case by simp
next
  case (Cons kv kvs)
  obtain k' x' where kv: "kv = (k', x')" by (cases kv)
  obtain st where r: "r = StateResponse st" by (cases r)
  show ?case
  proof (cases "(k, x) = kv")
    case True
    with kv have same: "k' = k" "x' = x" by simp_all
    from storeString_error [OF assms(3) assms(4), of st]
    obtain kind where "snd (storeString x st) = Some (UnmarshalTypeError kind)" ..
    then obtain e where "saveError saved (snd (storeString x st)) = Some e"
      by (cases saved) (auto simp: saveError_def)
    then show ?thesis
      using assms(2) by (simp add: kv r same object_stateResponse_saved)
  next
    case False
    with Cons.prems have "(k, x) \<in> set kvs" by auto
    then show ?thesis
      using Cons.IH by (simp add: kv r)
  qed
qed

lemma object_valueResponse_member:
  assumes "(k, x) \<in> set kvs" and "equalFold ''state'' k \<or> equalFold ''value'' k"
    and "\<forall>s. x \<noteq> JString s" and "x \<noteq> JNull"
  shows "\<exists>e. snd (object_valueResponse kvs (r, saved)) = Some e"
  using assms(1)
proof (induction kvs arbitrary: r saved)
  case Nil
  then show ?case by simp
next
  case (Cons kv kvs)
  obtain k' x' where kv: "kv = (k', x')" by (cases kv)
  obtain st val where r: "r = ValueResponse st val" by (cases r)
  show ?case
  proof (cases "(k, x) = kv")
    case True
    with kv have same: "k' = k" "x' = x" by simp_all
    have "\<exists>e. saveError saved (snd (storeString x old)) = Some e" for old
    proof -
      from storeString_error [OF assms(3) assms(4), of old]
      obtain kind where "snd (storeString x old) = Some (UnmarshalTypeError kind)" ..
      then show ?thesis
        by (cases saved) (auto simp: saveError_def)
    qed
    then obtain e1 e2 where "saveError saved (snd (storeString x st)) = Some e1"
      and "saveError saved (snd (storeString x val)) = Some e2"
      by blast
    then show ?thesis
      using assms(2) by (auto simp: kv r same object_valueResponse_saved)
  next
    case False
    with Cons.prems have "(k, x) \<in> set kvs" by auto
    then show ?thesis
      using Cons.IH by (simp add: kv r)
  qed
qed

lemma json_Unmarshal_stateResponse_member:
  assumes "checkValid resp = Some (JObject kvs)" and "(k, x) \<in> set kvs"
    and "equalFold ''state'' k" and "\<forall>s. x \<noteq> JString s" and "x \<noteq> JNull"
  shows "\<exists>e. snd (json_Unmarshal_stateResponse resp r) = Some e"
  using assms(1) object_stateResponse_member [OF assms(2-5)]
  by (simp add: json_Unmarshal_stateResponse_def)

lemma json_Unmarshal_valueResponse_member:
  assumes "checkValid resp = Some (JObject kvs)" and "(k, x) \<in> set kvs"
    and "equalFold ''state'' k \<or> equalFold ''value'' k" and "\<forall>s. x \<noteq> JString s" and "x \<noteq> JNull"
  shows "\<exists>e. snd (json_Unmarshal_valueResponse resp r) = Some e"
  using assms(1) object_valueResponse_member [OF assms(2-5)]
  by (simp add: json_Unmarshal_valueResponse_def)

text \<open>
  Claim C3, as amended. When the transport returns a payload on which
  \<^verbatim>\<open>json.Unmarshal\<close> fails, \<^verbatim>\<open>stateRequest\<close> and \<^verbatim>\<open>valueRequest\<close> return an
  unmarshalling error that carries the decoder's error, the calling command's name and
  the payload, byte for byte. The decoder fails on a payload that is not well-formed
  JSON, on a well-formed payload whose top-level value is a boolean, a number, a string
  or an array, and on an object in which the value of a \<^verbatim>\<open>state\<close> member (for
  \<^verbatim>\<open>valueRequest\<close>: of a \<^verbatim>\<open>state\<close> or \<^verbatim>\<open>value\<close> member) is neither a string nor
  \<^verbatim>\<open>null\<close>.
\<close>

theorem undecodable_reply_is_unmarshalling_error:
  assumes reply: "apiService (driver \<sigma>) (url req) (httpMethod req) (body req) (remote \<sigma>)
                    = ((resp, None), w)"
  shows "(snd (json_Unmarshal_stateResponse resp (StateResponse '''')) = Some e \<longrightarrow>
            stateRequest req \<sigma>
              = (Inl (Unmarshalling e (callingMethod req) resp), \<sigma>\<lparr>remote := w\<rparr>))
     \<and> (snd (json_Unmarshal_valueResponse resp (ValueResponse '''' '''')) = Some e \<longrightarrow>
            valueRequest req \<sigma>
              = (Inl (Unmarshalling e (callingMethod req) resp), \<sigma>\<lparr>remote := w\<rparr>))
     \<and> (checkValid resp = None
          \<or> (\<exists>v. checkValid resp = Some v
                \<and> ((\<exists>b. v = JBool b) \<or> (\<exists>n. v = JNumber n) \<or> (\<exists>s. v = JString s)
                     \<or> (\<exists>vs. v = JArray vs)))
          \<or> (\<exists>kvs k x. checkValid resp = Some (JObject kvs) \<and> (k, x) \<in> set kvs
                \<and> equalFold ''state'' k \<and> (\<forall>s. x \<noteq> JString s) \<and> x \<noteq> JNull) \<longrightarrow>
            (\<exists>err. fst (stateRequest req \<sigma>) = Inl (Unmarshalling err (callingMethod req) resp))
          \<and> (\<exists>err. fst (valueRequest req \<sigma>) = Inl (Unmarshalling err (callingMethod req) resp)))
     \<and> ((\<exists>kvs k x. checkValid resp = Some (JObject kvs) \<and> (k, x) \<in> set kvs
                \<and> equalFold ''value'' k \<and> (\<forall>s. x \<noteq> JString s) \<and> x \<noteq> JNull) \<longrightarrow>
            (\<exists>err. fst (valueRequest req \<sigma>) = Inl (Unmarshalling err (callingMethod req) resp)))"
proof -
  have state: "stateRequest req \<sigma>
      = (Inl (Unmarshalling err (callingMethod req) resp), \<sigma>\<lparr>remote := w\<rparr>)"
    if "snd (json_Unmarshal_stateResponse resp (StateResponse '''')) = Some err" for err
    using reply that by (rule stateRequest_undecodable)
  have val: "valueRequest req \<sigma>
      = (Inl (Unmarshalling err (callingMethod req) resp), \<sigma>\<lparr>remote := w\<rparr>)"
    if "snd (json_Unmarshal_valueResponse resp (ValueResponse '''' '''')) = Some err" for err
    using reply that by (rule valueRequest_undecodable)
  have state_fails: "\<exists>err. snd (json_Unmarshal_stateResponse resp (StateResponse '''')) = Some err"
    and value_fails: "\<exists>err. snd (json_Unmarshal_valueResponse resp (ValueResponse '''' '''')) = Some err"
    if "checkValid resp = None
          \<or> (\<exists>v. checkValid resp = Some v
                \<and> ((\<exists>b. v = JBool b) \<or> (\<exists>n. v = JNumber n) \<or> (\<exists>s. v = JString s)
                     \<or> (\<exists>vs. v = JArray vs)))
          \<or> (\<exists>kvs k x. checkValid resp = Some (JObject kvs) \<and> (k, x) \<in> set kvs
                \<and> equalFold ''state'' k \<and> (\<forall>s. x \<noteq> JString s) \<and> x \<noteq> JNull)"
    using that json_Unmarshal_stateResponse_syntax [of resp "StateResponse ''''"]
      json_Unmarshal_stateResponse_kind [of resp _ "StateResponse ''''"]
      json_Unmarshal_stateResponse_member [of resp _ _ _ "StateResponse ''''"]
      json_Unmarshal_valueResponse_syntax [of resp "ValueResponse '''' ''''"]
      json_Unmarshal_valueResponse_kind [of resp _ "ValueResponse '''' ''''"]
      json_Unmarshal_valueResponse_member [of resp _ _ _ "ValueResponse '''' ''''"]
    by blast+
  have value_member: "\<exists>err. snd (json_Unmarshal_valueResponse resp (ValueResponse '''' '''')) = Some err"
    if "\<exists>kvs k x. checkValid resp = Some (JObject kvs) \<and> (k, x) \<in> set kvs
                \<and> equalFold ''value'' k \<and> (\<forall>s. x \<noteq> JString s) \<and> x \<noteq> JNull"
    using that json_Unmarshal_valueResponse_member [of resp _ _ _ "ValueResponse '''' ''''"]
    by blast
  show ?thesis
    using state val state_fails value_fails value_member
    by (metis fst_conv)
qed

lemma checkValid_html: "checkValid ''<html>'' = None"
  by code_simp

lemma checkValid_array: \<open>checkValid ''["success"]'' = Some (JArray [JString ''success''])\<close>
  by code_simp

theorem undecodable_reply_is_unmarshalling_error_witness:
  \<open>stateRequest \<lparr>url = ''http://host:4444/session/abc/back'', httpMethod = ''POST'',
                  body = None, callingMethod = ''Back''\<rparr>
          (testSystem ''abc'' (''<html>'', None))
     = (Inl (Unmarshalling SyntaxError ''Back'' ''<html>''),
        \<lparr>driver = testDriver ''abc'' (''<html>'', None),
         remote = [(''http://host:4444/session/abc/back'', ''POST'', None)]\<rparr>)
   \<and> valueRequest \<lparr>url = ''http://host:4444/session/abc/title'', httpMethod = ''GET'',
                    body = None, callingMethod = ''Title''\<rparr>
          (testSystem ''abc'' (''["success"]'', None))
     = (Inl (Unmarshalling (UnmarshalTypeError ''array'') ''Title'' ''["success"]''),
        \<lparr>driver = testDriver ''abc'' (''["success"]'', None),
         remote = [(''http://host:4444/session/abc/title'', ''GET'', None)]\<rparr>)\<close>
proof -
  let ?backRequest = "\<lparr>url = ''http://host:4444/session/abc/back'', httpMethod = ''POST'',
                 body = None, callingMethod = ''Back''\<rparr>"
  let ?titleRequest = "\<lparr>url = ''http://host:4444/session/abc/title'', httpMethod = ''GET'',
                  body = None, callingMethod = ''Title''\<rparr>"
  have html: "apiService (driver (testSystem ''abc'' (''<html>'', None))) (url ?backRequest)
        (httpMethod ?backRequest) (body ?backRequest) (remote (testSystem ''abc'' (''<html>'', None)))
      = ((''<html>'', None), [(url ?backRequest, httpMethod ?backRequest, body ?backRequest)])"
    by (simp add: testSystem_def testDriver_def recording_def)
  have array: \<open>apiService (driver (testSystem ''abc'' (''["success"]'', None))) (url ?titleRequest)
        (httpMethod ?titleRequest) (body ?titleRequest) (remote (testSystem ''abc'' (''["success"]'', None)))
      = ((''["success"]'', None), [(url ?titleRequest, httpMethod ?titleRequest, body ?titleRequest)])\<close>
    by (simp add: testSystem_def testDriver_def recording_def)
  have malformed: "snd (json_Unmarshal_stateResponse ''<html>'' (StateResponse '''')) = Some SyntaxError"
    by (simp add: json_Unmarshal_stateResponse_def checkValid_html)
  have mistyped: \<open>snd (json_Unmarshal_valueResponse ''["success"]'' (ValueResponse '''' ''''))
      = Some (UnmarshalTypeError ''array'')\<close>
    by (simp add: json_Unmarshal_valueResponse_def checkValid_array)
  from undecodable_reply_is_unmarshalling_error [OF html, where e = SyntaxError]
    undecodable_reply_is_unmarshalling_error [OF array, where e = "UnmarshalTypeError ''array''"]
    malformed mistyped
  show ?thesis
    by (simp add: testSystem_def)
qed

text \<open>
  An object none of whose members names a field is stored without error and changes
  nothing; so is \<^verbatim>\<open>null\<close>.
\<close>

lemma object_stateResponse_skipped:
  "\<forall>(k, x) \<in> set kvs. \<not> equalFold ''state'' k \<Longrightarrow> object_stateResponse kvs acc = acc"
  by (induction kvs acc rule: object_stateResponse.induct) auto

lemma object_valueResponse_skipped:
  "\<forall>(k, x) \<in> set kvs. \<not> equalFold ''state'' k \<and> \<not> equalFold ''value'' k
     \<Longrightarrow> object_valueResponse kvs acc = acc"
  by (induction kvs acc rule: object_valueResponse.induct) auto

lemma json_Unmarshal_stateResponse_skipped:
  assumes "checkValid resp = Some (JObject kvs)"
    and "\<forall>(k, x) \<in> set kvs. \<not> equalFold ''state'' k"
  shows "json_Unmarshal_stateResponse resp r = (r, None)"
  using assms by (simp add: json_Unmarshal_stateResponse_def object_stateResponse_skipped)

lemma json_Unmarshal_valueResponse_skipped:
  assumes "checkValid resp = Some (JObject kvs)"
    and "\<forall>(k, x) \<in> set kvs. \<not> equalFold ''state'' k \<and> \<not> equalFold ''value'' k"
  shows "json_Unmarshal_valueResponse resp r = (r, None)"
  using assms by (simp add: json_Unmarshal_valueResponse_def object_valueResponse_skipped)

lemma json_Unmarshal_null:
  assumes "checkValid resp = Some JNull"
  shows "json_Unmarshal_stateResponse resp r = (r, None)"
    and "json_Unmarshal_valueResponse resp r' = (r', None)"
  using assms
  by (simp_all add: json_Unmarshal_stateResponse_def json_Unmarshal_valueResponse_def)

text \<open>
  Claim C3 as stated fails: the payload \<^verbatim>\<open>{"foo":"bar"}\<close> is well-formed JSON whose
  shape is neither \<^verbatim>\<open>{state}\<close> nor \<^verbatim>\<open>{state, value}\<close>, and both helpers accept it: the
  unknown member is skipped, the fields stay empty, and no error is returned.
\<close>

lemma checkValid_foo: \<open>checkValid ''{"foo":"bar"}'' = Some (JObject [(''foo'', JString ''bar'')])\<close>
  by code_simp

theorem other_shape_is_accepted_counterexample:
  \<open>fst (stateRequest \<lparr>url = ''http://host:4444/session/abc/back'', httpMethod = ''POST'',
                       body = None, callingMethod = ''Back''\<rparr>
          (testSystem ''abc'' (''{"foo":"bar"}'', None)))
     = Inr (StateResponse '''')
   \<and> fst (valueRequest \<lparr>url = ''http://host:4444/session/abc/title'', httpMethod = ''GET'',
                          body = None, callingMethod = ''Title''\<rparr>
          (testSystem ''abc'' (''{"foo":"bar"}'', None)))
     = Inr (ValueResponse '''' '''')\<close>
proof -
  have state: \<open>json_Unmarshal_stateResponse ''{"foo":"bar"}'' (StateResponse '''')
      = (StateResponse '''', None)\<close>
    by (simp add: json_Unmarshal_stateResponse_def checkValid_foo)
  have val: \<open>json_Unmarshal_valueResponse ''{"foo":"bar"}'' (ValueResponse '''' '''')
      = (ValueResponse '''' '''', None)\<close>
    by (simp add: json_Unmarshal_valueResponse_def checkValid_foo)
  show ?thesis
    by (simp add: stateRequest_def valueRequest_def testSystem_def testDriver_def recording_def
        state val)
qed

subsection \<open>Navigating to a URL\<close>

lemma json_Marshal_url: \<open>json_Marshal [(''url'', ''https://x'')] = (''{"url":"https://x"}'', None)\<close>
  by code_simp

lemma Go_posts:
  assumes "sessionID (driver \<sigma>) \<noteq> ''''"
  shows \<open>Go ''https://x'' \<sigma>
    = (case apiService (driver \<sigma>)
              (seleniumURL (driver \<sigma>) @ ''/session/'' @ sessionID (driver \<sigma>) @ ''/url'')
              ''POST'' (Some ''{"url":"https://x"}'') (remote \<sigma>) of
         ((resp, Some e), w) \<Rightarrow>
           (Inl (Communication e ''Go''
                  (seleniumURL (driver \<sigma>) @ ''/session/'' @ sessionID (driver \<sigma>) @ ''/url'')
                  resp),
            \<sigma>\<lparr>remote := w\<rparr>)
       | ((resp, None), w) \<Rightarrow>
           (case json_Unmarshal_stateResponse resp (StateResponse '''') of
              (r, Some e) \<Rightarrow> (Inl (Unmarshalling e ''Go'' resp), \<sigma>\<lparr>remote := w\<rparr>)
            | (StateResponse st, None) \<Rightarrow> (Inr (GoResponse st), \<sigma>\<lparr>remote := w\<rparr>)))\<close>
proof -
  have prefix: "HasPrefix ''https://x'' ''https://''"
    by (simp add: HasPrefix_def)
  show ?thesis
    using assms
    by (simp add: Go_def Let_def prefix json_Marshal_url stateRequest_def Sprintf_session_def
        newCommunicationError_def newUnmarshallingError_def
        split: prod.splits option.splits stateResponse.splits)
qed

text \<open>
  Claim C4, as amended. On a driver with a non-empty \<^verbatim>\<open>sessionID\<close>, \<^verbatim>\<open>Go("")\<close> and
  \<^verbatim>\<open>Go("ftp://x")\<close> fail with an invalid-URL error and the transport is not invoked (the
  state of the remote end is the one before the call); \<^verbatim>\<open>Go("https://x")\<close> invokes the
  transport exactly once, with the URL \<^verbatim>\<open>serverURL + "/session/" + sessionID + "/url"\<close>,
  the method \<^verbatim>\<open>POST\<close> and the body \<^verbatim>\<open>{"url":"https://x"}\<close>: its result and the state
  after it are those of that one call, and a recording transport has recorded exactly
  that call.
\<close>

theorem Go_checks_url_then_posts_once:
  assumes "sessionID (driver \<sigma>) \<noteq> ''''" and "sessionID (driver \<rho>) \<noteq> ''''"
    and "apiService (driver \<rho>) = recording reply"
  shows \<open>Go '''' \<sigma> = (Inl (InvalidURL (errors_New ''Invalid URL in Go()'') ''''), \<sigma>)
   \<and> Go ''ftp://x'' \<sigma> = (Inl (InvalidURL (errors_New ''Invalid URL in Go()'') ''ftp://x''), \<sigma>)
   \<and> Go ''https://x'' \<sigma>
    = (case apiService (driver \<sigma>)
              (seleniumURL (driver \<sigma>) @ ''/session/'' @ sessionID (driver \<sigma>) @ ''/url'')
              ''POST'' (Some ''{"url":"https://x"}'') (remote \<sigma>) of
         ((resp, Some e), w) \<Rightarrow>
           (Inl (Communication e ''Go''
                  (seleniumURL (driver \<sigma>) @ ''/session/'' @ sessionID (driver \<sigma>) @ ''/url'')
                  resp),
            \<sigma>\<lparr>remote := w\<rparr>)
       | ((resp, None), w) \<Rightarrow>
           (case json_Unmarshal_stateResponse resp (StateResponse '''') of
              (r, Some e) \<Rightarrow> (Inl (Unmarshalling e ''Go'' resp), \<sigma>\<lparr>remote := w\<rparr>)
            | (StateResponse st, None) \<Rightarrow> (Inr (GoResponse st), \<sigma>\<lparr>remote := w\<rparr>)))
   \<and> remote (snd (Go '''' \<rho>)) = remote \<rho>
   \<and> remote (snd (Go ''ftp://x'' \<rho>)) = remote \<rho>
   \<and> remote (snd (Go ''https://x'' \<rho>))
    = remote \<rho> @ [(seleniumURL (driver \<rho>) @ ''/session/'' @ sessionID (driver \<rho>) @ ''/url'',
                    ''POST'', Some ''{"url":"https://x"}'')]\<close>
proof -
  have no_prefix: "\<not> HasPrefix ''ftp://x'' ''https://''" "\<not> HasPrefix ''ftp://x'' ''http://''"
    by (simp_all add: HasPrefix_def)
  have empty: "Go '''' s = (Inl (InvalidURL (errors_New ''Invalid URL in Go()'') ''''), s)"
    if "sessionID (driver s) \<noteq> ''''" for s :: "'x system"
    using that by (simp add: Go_def Let_def newInvalidURLError_def)
  have ftp: "Go ''ftp://x'' s
      = (Inl (InvalidURL (errors_New ''Invalid URL in Go()'') ''ftp://x''), s)"
    if "sessionID (driver s) \<noteq> ''''" for s :: "'x system"
    using that by (simp add: Go_def Let_def newInvalidURLError_def no_prefix)
  have recorded: \<open>remote (snd (Go ''https://x'' \<rho>))
      = remote \<rho> @ [(seleniumURL (driver \<rho>) @ ''/session/'' @ sessionID (driver \<rho>) @ ''/url'',
                      ''POST'', Some ''{"url":"https://x"}'')]\<close>
    by (cases reply)
      (simp add: Go_posts [OF assms(2)] assms(3) recording_def
        split: prod.splits option.splits stateResponse.splits)
  show ?thesis
    using empty [OF assms(1)] ftp [OF assms(1)] empty [OF assms(2)] ftp [OF assms(2)]
      Go_posts [OF assms(1)] recorded
    by simp
qed

theorem Go_checks_url_then_posts_once_witness:
  \<open>Go '''' (testSystem ''abc'' (''{"state":"success"}'', None))
     = (Inl (InvalidURL (errors_New ''Invalid URL in Go()'') ''''),
        testSystem ''abc'' (''{"state":"success"}'', None))
   \<and> Go ''ftp://x'' (testSystem ''abc'' (''{"state":"success"}'', None))
     = (Inl (InvalidURL (errors_New ''Invalid URL in Go()'') ''ftp://x''),
        testSystem ''abc'' (''{"state":"success"}'', None))
   \<and> remote (snd (Go '''' (testSystem ''abc'' (''{"state":"success"}'', None)))) = []
   \<and> remote (snd (Go ''ftp://x'' (testSystem ''abc'' (''{"state":"success"}'', None)))) = []
   \<and> remote (snd (Go ''https://x'' (testSystem ''abc'' (''{"state":"success"}'', None))))
     = [(''http://host:4444/session/abc/url'', ''POST'', Some ''{"url":"https://x"}'')]\<close>
proof -
  let ?\<sigma> = \<open>testSystem ''abc'' (''{"state":"success"}'', None)\<close>
  have session: "sessionID (driver ?\<sigma>) \<noteq> ''''"
    by (simp add: testSystem_def testDriver_def)
  have transport: \<open>apiService (driver ?\<sigma>) = recording (''{"state":"success"}'', None)\<close>
    by (simp add: testSystem_def testDriver_def)
  have base: "seleniumURL (driver ?\<sigma>) = ''http://host:4444''" "sessionID (driver ?\<sigma>) = ''abc''"
    "remote ?\<sigma> = []"
    by (simp_all add: testSystem_def testDriver_def)
  note once = Go_checks_url_then_posts_once [OF session session transport]
  show ?thesis
    using once [THEN conjunct1] once [THEN conjunct2, THEN conjunct1]
      once [THEN conjunct2, THEN conjunct2, THEN conjunct2]
    by (simp add: base)
qed

text \<open>
  Claim C4 as stated fails on a driver without a session: the check of the session
  comes first, so \<^verbatim>\<open>Go("")\<close> and \<^verbatim>\<open>Go("ftp://x")\<close> fail with the missing-session error,
  not with an invalid-URL error.
\<close>

theorem Go_without_session_counterexample:
  "fst (Go '''' (testSystem '''' (''{}'', None))) = Inl (MissingSession ''Go()'')
   \<and> fst (Go ''ftp://x'' (testSystem '''' (''{}'', None))) = Inl (MissingSession ''Go()'')"
  by (simp add: Go_def testSystem_def testDriver_def newSessionIDError_def)

text \<open>
  With a session, the reply \<^verbatim>\<open>{"state":"success"}\<close> makes \<^verbatim>\<open>Go\<close> and \<^verbatim>\<open>Back\<close> succeed,
  and the reply \<^verbatim>\<open>{"state":"success","value":"https://example.com"}\<close> is what
  \<^verbatim>\<open>CurrentURL\<close> returns.
\<close>

lemma Back_success:
  \<open>fst (Back (testSystem ''abc'' (''{"state":"success"}'', None))) = Inr (BackResponse ''success'')\<close>
  by code_simp

lemma CurrentURL_success:
  \<open>fst (CurrentURL (testSystem ''abc''
           (''{"state":"success","value":"https://example.com"}'', None)))
     = Inr (CurrentURLResponse ''success'' ''https://example.com'')\<close>
  by code_simp

end
